theory Spec2Isabelle
  imports Complex_Main "HOL-Library.Sublist"
begin

section \<open>Domain types (the shared type declarations of the front end)\<close>

text \<open>
  A JavaScript \<^verbatim>\<open>number\<close> that travels through JSON is a finite decimal; it is kept as a
  real. The string-literal unions of the type declarations are datatypes, the interfaces
  are records, and a field marked \<^verbatim>\<open>?\<close> is an \<open>option\<close>. Field names repeat between
  interfaces, so they are written qualified (\<open>Animal.id\<close>, \<open>HealthRecord.animalId\<close>).
\<close>

type_synonym number = real

datatype Gender = Male | Female | Unknown

datatype AnimalStatus = Healthy | UnderCare | Quarantine | Breeding | Inactive

record Animal =
  id :: string
  name :: string
  species :: string
  breed :: string
  age :: number
  gender :: Gender
  weightKg :: "number option"
  status :: AnimalStatus
  "notes" :: "string option"

datatype HealthRecordType = Vaccination | Treatment | Checkup | Medication | Surgery

datatype HealthRecordStatus = Scheduled | Ongoing | Completed

record HealthRecord =
  id :: string
  animalId :: string
  recordType :: HealthRecordType
  description :: string
  date :: string
  veterinarian :: string
  status :: HealthRecordStatus
  nextDueDate :: "string option"
  "notes" :: "string option"

datatype FeedingStatus = Pending | Completed | Missed

datatype Frequency = Daily | TwiceDaily | Weekly | Custom

record FeedingTask =
  id :: string
  animalId :: string
  animalName :: string
  foodType :: string
  quantity :: string
  time :: string
  frequency :: Frequency
  status :: FeedingStatus
  startDate :: string

datatype BreedingStatus = Pregnant | Delivered | Unsuccessful

record BreedingRecord =
  id :: string
  motherId :: string
  fatherId :: string
  matingDate :: string
  dueDate :: string
  expectedLitter :: "string option"
  actualLitter :: "string option"
  status :: BreedingStatus
  "notes" :: "string option"

datatype InventoryCategory = Food | Medicine | Equipment | Supplies

datatype InventoryStatus = InStock | LowStock | OutOfStock

record InventoryItem =
  id :: string
  name :: string
  category :: InventoryCategory
  quantity :: number
  unit :: string
  reorderLevel :: number
  costPerUnit :: number
  status :: InventoryStatus

datatype StaffRole = Veterinarian | Caretaker | Manager | Assistant | Support

datatype StaffStatus = Active | OnLeave | Inactive

record StaffMember =
  id :: string
  name :: string
  role :: StaffRole
  email :: string
  phone :: string
  status :: StaffStatus
  joined :: string
  "notes" :: "string option"

record NotificationPreferences =
  lowStockAlerts :: bool
  healthReminders :: bool
  breedingAlerts :: bool
  feedingReminders :: bool
  emailSummary :: bool

text \<open>
  \<^verbatim>\<open>FacilitySettings\<close> nests the preference object. On the wire (a JSON body) the nested
  object is a value; in the browser's memory it is a reference to an object that can be
  shared. The record is therefore parametric in how the nested field is held.
\<close>

record 'p FacilitySettings =
  facilityName :: string
  registrationNumber :: string
  address :: string
  phone :: string
  email :: string
  operatingHours :: string
  notificationPreferences :: 'p
  lastBackup :: string

datatype TimeRange = RangeDaily | RangeWeekly | RangeMonthly | RangeYearly

datatype ReportType =
  ReportAll | ReportAnimals | ReportHealth | ReportInventory | ReportBreeding | ReportFinancial

record ReportFilters =
  timeRange :: TimeRange
  reportType :: ReportType

text \<open>\<^verbatim>\<open>keyof FacilitySettings['notificationPreferences']\<close>: the five flag names.\<close>

datatype PrefKey =
  KeyLowStockAlerts | KeyHealthReminders | KeyBreedingAlerts | KeyFeedingReminders
  | KeyEmailSummary

subsection \<open>Payload types of the store (FacilityContext.tsx, lines 22-38)\<close>

text \<open>\<^verbatim>\<open>Omit<Animal, 'id'>\<close> and its siblings: the entity without its id (and, for an
  inventory item, without its status).\<close>

record CreateAnimalInput =
  name :: string
  species :: string
  breed :: string
  age :: number
  gender :: Gender
  weightKg :: "number option"
  status :: AnimalStatus
  "notes" :: "string option"

record CreateHealthRecordInput =
  animalId :: string
  recordType :: HealthRecordType
  description :: string
  date :: string
  veterinarian :: string
  status :: HealthRecordStatus
  nextDueDate :: "string option"
  "notes" :: "string option"

record CreateFeedingTaskInput =
  animalId :: string
  animalName :: string
  foodType :: string
  quantity :: string
  time :: string
  frequency :: Frequency
  status :: FeedingStatus
  startDate :: string

record CreateBreedingRecordInput =
  motherId :: string
  fatherId :: string
  matingDate :: string
  dueDate :: string
  expectedLitter :: "string option"
  actualLitter :: "string option"
  status :: BreedingStatus
  "notes" :: "string option"

record CreateInventoryItemInput =
  name :: string
  category :: InventoryCategory
  quantity :: number
  unit :: string
  reorderLevel :: number
  costPerUnit :: number

record CreateStaffMemberInput =
  name :: string
  role :: StaffRole
  email :: string
  phone :: string
  status :: StaffStatus
  joined :: string
  "notes" :: "string option"

text \<open>\<^verbatim>\<open>Partial<Omit<Animal, 'id'>>\<close> and its siblings: every field may be absent
  (\<open>None\<close>); a field that is present carries its new value.\<close>

record UpdateAnimalInput =
  name :: "string option"
  species :: "string option"
  breed :: "string option"
  age :: "number option"
  gender :: "Gender option"
  weightKg :: "number option"
  status :: "AnimalStatus option"
  "notes" :: "string option"

record UpdateHealthRecordInput =
  animalId :: "string option"
  recordType :: "HealthRecordType option"
  description :: "string option"
  date :: "string option"
  veterinarian :: "string option"
  status :: "HealthRecordStatus option"
  nextDueDate :: "string option"
  "notes" :: "string option"

record UpdateFeedingTaskInput =
  animalId :: "string option"
  animalName :: "string option"
  foodType :: "string option"
  quantity :: "string option"
  time :: "string option"
  frequency :: "Frequency option"
  status :: "FeedingStatus option"
  startDate :: "string option"

record UpdateBreedingRecordInput =
  motherId :: "string option"
  fatherId :: "string option"
  matingDate :: "string option"
  dueDate :: "string option"
  expectedLitter :: "string option"
  actualLitter :: "string option"
  status :: "BreedingStatus option"
  "notes" :: "string option"

record UpdateInventoryItemInput =
  name :: "string option"
  category :: "InventoryCategory option"
  quantity :: "number option"
  unit :: "string option"
  reorderLevel :: "number option"
  costPerUnit :: "number option"
  status :: "InventoryStatus option"

record UpdateStaffMemberInput =
  name :: "string option"
  role :: "StaffRole option"
  email :: "string option"
  phone :: "string option"
  status :: "StaffStatus option"
  joined :: "string option"
  "notes" :: "string option"

record UpdateSettingsInput =
  facilityName :: "string option"
  registrationNumber :: "string option"
  address :: "string option"
  phone :: "string option"
  email :: "string option"
  operatingHours :: "string option"
  notificationPreferences :: "NotificationPreferences option"
  lastBackup :: "string option"

section \<open>The REST client (services/api.ts)\<close>

text \<open>
  A promise that has settled is a sum: \<open>Inl\<close> carries the rejection, \<open>Inr\<close> the value it
  resolved with. \<open>Error v\<close> is \<^verbatim>\<open>new Error(v)\<close>, whose message is \<open>v\<close> converted to a
  string (a string \<open>v\<close> is its own message); \<open>TypeError\<close> is what reading a property of
  \<^verbatim>\<open>null\<close> throws; \<open>SyntaxError\<close> is what \<^verbatim>\<open>response.json()\<close> rejects with on a body that
  is not JSON; \<open>FetchFailed\<close> is the rejection of \<^verbatim>\<open>fetch\<close> itself (no response at all).
\<close>

datatype json =
  JNull | JBool bool | JNum number | JStr string | JArr "json list"
  | JObj "(string \<times> json) list"

datatype error = Error json | TypeError | SyntaxError | FetchFailed string

type_synonym 'a promise = "error + 'a"

text \<open>What \<^verbatim>\<open>fetchAPI\<close> reads of a response: the status code and the body, \<open>None\<close> when
  the body does not parse as JSON.\<close>

record Response =
  status :: nat
  body :: "json option"

text \<open>\<^verbatim>\<open>response.ok\<close>: the status is in the range 200-299.\<close>

definition ok :: "Response \<Rightarrow> bool" where
  "ok response = (200 \<le> Response.status response \<and> Response.status response \<le> 299)"

text \<open>JavaScript truthiness, as the operator \<^verbatim>\<open>||\<close> tests it.\<close>

fun truthy :: "json \<Rightarrow> bool" where
  "truthy JNull = False"
| "truthy (JBool b) = b"
| "truthy (JNum x) = (x \<noteq> 0)"
| "truthy (JStr s) = (s \<noteq> [])"
| "truthy (JArr xs) = True"
| "truthy (JObj kvs) = True"

text \<open>The property read \<^verbatim>\<open>v.error\<close> on a parsed JSON value: \<open>None\<close> is \<^verbatim>\<open>undefined\<close>.
  \<^verbatim>\<open>JSON.parse\<close> keeps the last of several equal keys; a primitive or an array has
  no such property; \<^verbatim>\<open>null\<close> throws.\<close>

fun errorProp :: "json \<Rightarrow> error + json option" where
  "errorProp JNull = Inl TypeError"
| "errorProp (JObj kvs) = Inr (map_of (rev kvs) ''error'')"
| "errorProp v = Inr None"

text \<open>A status code inside a template literal: its decimal digits.\<close>

fun digits :: "nat \<Rightarrow> string" where
  "digits n =
     (if n < 10 then [char_of (48 + n)]
      else digits (n div 10) @ [char_of (48 + n mod 10)])"

declare digits.simps [simp del]

text \<open>
  \<^verbatim>\<open>
  async function fetchAPI<T>(endpoint, options) {
    const response = await fetch(...);
    if (!response.ok) {
      const error = await response.json().catch(() => ({ error: 'Network error' }));
      throw new Error(error.error || `HTTP error! status: ${response.status}`);
    }
    return response.json();
  }
  \<close>
  The argument is the settled \<^verbatim>\<open>fetch\<close> promise.
\<close>

definition fetchAPI :: "Response promise \<Rightarrow> json promise" where
  "fetchAPI fetched =
     (case fetched of
        Inl e \<Rightarrow> Inl e
      | Inr response \<Rightarrow>
          if \<not> ok response then
            (let error = (case body response of
                            None \<Rightarrow> JObj [(''error'', JStr ''Network error'')]
                          | Some v \<Rightarrow> v)
             in case errorProp error of
                  Inl e \<Rightarrow> Inl e
                | Inr None \<Rightarrow>
                    Inl (Error (JStr (''HTTP error! status: ''
                                       @ digits (Response.status response))))
                | Inr (Some v) \<Rightarrow>
                    if truthy v then Inl (Error v)
                    else Inl (Error (JStr (''HTTP error! status: ''
                                            @ digits (Response.status response)))))
          else (case body response of None \<Rightarrow> Inl SyntaxError | Some v \<Rightarrow> Inr v))"

section \<open>The facility store (context/FacilityContext.tsx)\<close>

text \<open>
  The provider's state: six collections, the settings object, the report filters and the
  loading flag. The settings object's nested \<^verbatim>\<open>notificationPreferences\<close> is an object of
  its own, reached through a reference: \<open>heap\<close> maps each address to the preference object
  stored there, and \<open>nextAddr\<close> is the next address never used so far. The top-level
  fields of a settings object are never assigned to, so only the nested object needs an
  address. What a REST call resolves with is typed \<^verbatim>\<open>any\<close> and stored unchecked; the model
  takes it at the type the state declares for it.
\<close>

type_synonym addr = nat

type_synonym SettingsJson = "NotificationPreferences FacilitySettings"

type_synonym SettingsObj = "addr FacilitySettings"

record store =
  animals :: "Animal list"
  healthRecords :: "HealthRecord list"
  feedingTasks :: "FeedingTask list"
  breedingRecords :: "BreedingRecord list"
  inventory :: "InventoryItem list"
  staff :: "StaffMember list"
  settings :: SettingsObj
  reportFilters :: ReportFilters
  loading :: bool
  heap :: "addr \<Rightarrow> NotificationPreferences"
  nextAddr :: addr

text \<open>The same top-level fields around another nested value: a shallow copy.\<close>

definition withPrefs :: "'p FacilitySettings \<Rightarrow> 'q \<Rightarrow> 'q FacilitySettings" where
  "withPrefs s p =
     \<lparr>FacilitySettings.facilityName = FacilitySettings.facilityName s,
      FacilitySettings.registrationNumber = FacilitySettings.registrationNumber s,
      FacilitySettings.address = FacilitySettings.address s,
      FacilitySettings.phone = FacilitySettings.phone s,
      FacilitySettings.email = FacilitySettings.email s,
      FacilitySettings.operatingHours = FacilitySettings.operatingHours s,
      FacilitySettings.notificationPreferences = p,
      FacilitySettings.lastBackup = FacilitySettings.lastBackup s\<rparr>"

text \<open>What the settings object reads as, the nested object followed through the heap:
  what a screen renders and what \<^verbatim>\<open>JSON.stringify\<close> serialises.\<close>

definition readSettings ::
  "(addr \<Rightarrow> NotificationPreferences) \<Rightarrow> SettingsObj \<Rightarrow> SettingsJson" where
  "readSettings h s = withPrefs s (h (FacilitySettings.notificationPreferences s))"

definition currentSettings :: "store \<Rightarrow> SettingsJson" where
  "currentSettings st = readSettings (heap st) (settings st)"

text \<open>\<^verbatim>\<open>setSettings(updated)\<close> with a value that came out of \<^verbatim>\<open>response.json()\<close>: the parsed
  object and its nested object are new, so the nested one gets a fresh address.\<close>

definition setSettings :: "SettingsJson \<Rightarrow> store \<Rightarrow> store" where
  "setSettings updated st =
     st\<lparr>settings := withPrefs updated (nextAddr st),
        heap := (heap st)(nextAddr st := FacilitySettings.notificationPreferences updated),
        nextAddr := Suc (nextAddr st)\<rparr>"

text \<open>The assignment \<^verbatim>\<open>prefs[key] = value\<close>, and the read \<^verbatim>\<open>prefs[key]\<close> (as the settings
  screen renders a switch).\<close>

fun setPref :: "PrefKey \<Rightarrow> bool \<Rightarrow> NotificationPreferences \<Rightarrow> NotificationPreferences" where
  "setPref KeyLowStockAlerts v p = p\<lparr>lowStockAlerts := v\<rparr>"
| "setPref KeyHealthReminders v p = p\<lparr>healthReminders := v\<rparr>"
| "setPref KeyBreedingAlerts v p = p\<lparr>breedingAlerts := v\<rparr>"
| "setPref KeyFeedingReminders v p = p\<lparr>feedingReminders := v\<rparr>"
| "setPref KeyEmailSummary v p = p\<lparr>emailSummary := v\<rparr>"


subsection \<open>Initial state (lines 87-110)\<close>

definition defaultPreferences :: NotificationPreferences where
  "defaultPreferences =
     \<lparr>lowStockAlerts = True, healthReminders = True, breedingAlerts = True,
      feedingReminders = True, emailSummary = False\<rparr>"

text \<open>The built-in default; \<open>now\<close> is \<^verbatim>\<open>new Date().toISOString()\<close> at the first render.\<close>

definition defaultSettings :: "string \<Rightarrow> SettingsJson" where
  "defaultSettings now =
     \<lparr>FacilitySettings.facilityName = ''Green Valley Animal Care Center'',
      FacilitySettings.registrationNumber = ''FAC-2023-001'',
      FacilitySettings.address = ''123 Animal Care Lane, Green Valley, CA 90210'',
      FacilitySettings.phone = ''(555) 123-4567'',
      FacilitySettings.email = ''contact@greenvalley.com'',
      FacilitySettings.operatingHours = ''Monday - Saturday: 8:00 AM - 6:00 PM'',
      FacilitySettings.notificationPreferences = defaultPreferences,
      FacilitySettings.lastBackup = now\<rparr>"

definition initialReportFilters :: ReportFilters where
  "initialReportFilters = \<lparr>timeRange = RangeMonthly, reportType = ReportAll\<rparr>"

definition initialStore :: "string \<Rightarrow> store" where
  "initialStore now =
     \<lparr>animals = [], healthRecords = [], feedingTasks = [], breedingRecords = [],
      inventory = [], staff = [],
      settings = withPrefs (defaultSettings now) 0,
      reportFilters = initialReportFilters,
      loading = True,
      heap = (\<lambda>a. defaultPreferences),
      nextAddr = 1\<rparr>"

subsection \<open>Initial load (\<^verbatim>\<open>loadData\<close>, lines 113-144)\<close>


subsection \<open>The mutating operations (lines 146-349)\<close>

text \<open>
  Every operation has the shape
  \<^verbatim>\<open>try { const r = await api(...); setX((prev) => ...); } catch (error) { console.error(...); throw error; }\<close>.
  Its first argument is the REST call it awaits, its result is the settled promise of the
  operation (\<open>Inl e\<close>: the error thrown on to the caller) with the state it leaves. A call
  to \<^verbatim>\<open>delete\<close> resolves with the server's message.
\<close>

definition addAnimal ::
  "(CreateAnimalInput \<Rightarrow> Animal promise) \<Rightarrow> CreateAnimalInput \<Rightarrow> store
   \<Rightarrow> unit promise \<times> store" where
  "addAnimal animalsAPI_create payload st =
     (case animalsAPI_create payload of
        Inl error \<Rightarrow> (Inl error, st)
      | Inr newAnimal \<Rightarrow> (Inr (), st\<lparr>animals := animals st @ [newAnimal]\<rparr>))"

definition updateAnimal ::
  "(string \<Rightarrow> UpdateAnimalInput \<Rightarrow> Animal promise) \<Rightarrow> string
   \<Rightarrow> UpdateAnimalInput \<Rightarrow> store \<Rightarrow> unit promise \<times> store" where
  "updateAnimal animalsAPI_update i payload st =
     (case animalsAPI_update i payload of
        Inl error \<Rightarrow> (Inl error, st)
      | Inr updated \<Rightarrow>
          (Inr (),
           st\<lparr>animals :=
                map (\<lambda>animal. if Animal.id animal = i then updated else animal)
                  (animals st)\<rparr>))"

text \<open>Deleting an animal also filters the three collections that refer to it.\<close>

definition deleteAnimal ::
  "(string \<Rightarrow> string promise) \<Rightarrow> string \<Rightarrow> store \<Rightarrow> unit promise \<times> store" where
  "deleteAnimal animalsAPI_delete i st =
     (case animalsAPI_delete i of
        Inl error \<Rightarrow> (Inl error, st)
      | Inr message \<Rightarrow>
          (Inr (),
           st\<lparr>animals := filter (\<lambda>animal. Animal.id animal \<noteq> i) (animals st),
              healthRecords :=
                filter (\<lambda>record. HealthRecord.animalId record \<noteq> i) (healthRecords st),
              feedingTasks :=
                filter (\<lambda>task. FeedingTask.animalId task \<noteq> i) (feedingTasks st),
              breedingRecords :=
                filter (\<lambda>record. BreedingRecord.motherId record \<noteq> i
                                  \<and> BreedingRecord.fatherId record \<noteq> i)
                  (breedingRecords st)\<rparr>))"

definition addHealthRecord ::
  "(CreateHealthRecordInput \<Rightarrow> HealthRecord promise) \<Rightarrow> CreateHealthRecordInput \<Rightarrow> store
   \<Rightarrow> unit promise \<times> store" where
  "addHealthRecord healthRecordsAPI_create payload st =
     (case healthRecordsAPI_create payload of
        Inl error \<Rightarrow> (Inl error, st)
      | Inr newRecord \<Rightarrow> (Inr (), st\<lparr>healthRecords := healthRecords st @ [newRecord]\<rparr>))"

definition updateHealthRecord ::
  "(string \<Rightarrow> UpdateHealthRecordInput \<Rightarrow> HealthRecord promise) \<Rightarrow> string
   \<Rightarrow> UpdateHealthRecordInput \<Rightarrow> store \<Rightarrow> unit promise \<times> store" where
  "updateHealthRecord healthRecordsAPI_update i payload st =
     (case healthRecordsAPI_update i payload of
        Inl error \<Rightarrow> (Inl error, st)
      | Inr updated \<Rightarrow>
          (Inr (),
           st\<lparr>healthRecords :=
                map (\<lambda>record. if HealthRecord.id record = i then updated else record)
                  (healthRecords st)\<rparr>))"

definition deleteHealthRecord ::
  "(string \<Rightarrow> string promise) \<Rightarrow> string \<Rightarrow> store \<Rightarrow> unit promise \<times> store" where
  "deleteHealthRecord healthRecordsAPI_delete i st =
     (case healthRecordsAPI_delete i of
        Inl error \<Rightarrow> (Inl error, st)
      | Inr message \<Rightarrow>
          (Inr (),
           st\<lparr>healthRecords := filter (\<lambda>record. HealthRecord.id record \<noteq> i) (healthRecords st)\<rparr>))"

definition addFeedingTask ::
  "(CreateFeedingTaskInput \<Rightarrow> FeedingTask promise) \<Rightarrow> CreateFeedingTaskInput \<Rightarrow> store
   \<Rightarrow> unit promise \<times> store" where
  "addFeedingTask feedingTasksAPI_create payload st =
     (case feedingTasksAPI_create payload of
        Inl error \<Rightarrow> (Inl error, st)
      | Inr newTask \<Rightarrow> (Inr (), st\<lparr>feedingTasks := feedingTasks st @ [newTask]\<rparr>))"

definition updateFeedingTask ::
  "(string \<Rightarrow> UpdateFeedingTaskInput \<Rightarrow> FeedingTask promise) \<Rightarrow> string
   \<Rightarrow> UpdateFeedingTaskInput \<Rightarrow> store \<Rightarrow> unit promise \<times> store" where
  "updateFeedingTask feedingTasksAPI_update i payload st =
     (case feedingTasksAPI_update i payload of
        Inl error \<Rightarrow> (Inl error, st)
      | Inr updated \<Rightarrow>
          (Inr (),
           st\<lparr>feedingTasks :=
                map (\<lambda>task. if FeedingTask.id task = i then updated else task)
                  (feedingTasks st)\<rparr>))"

definition deleteFeedingTask ::
  "(string \<Rightarrow> string promise) \<Rightarrow> string \<Rightarrow> store \<Rightarrow> unit promise \<times> store" where
  "deleteFeedingTask feedingTasksAPI_delete i st =
     (case feedingTasksAPI_delete i of
        Inl error \<Rightarrow> (Inl error, st)
      | Inr message \<Rightarrow>
          (Inr (),
           st\<lparr>feedingTasks := filter (\<lambda>task. FeedingTask.id task \<noteq> i) (feedingTasks st)\<rparr>))"

definition addBreedingRecord ::
  "(CreateBreedingRecordInput \<Rightarrow> BreedingRecord promise) \<Rightarrow> CreateBreedingRecordInput \<Rightarrow> store
   \<Rightarrow> unit promise \<times> store" where
  "addBreedingRecord breedingRecordsAPI_create payload st =
     (case breedingRecordsAPI_create payload of
        Inl error \<Rightarrow> (Inl error, st)
      | Inr newRecord \<Rightarrow> (Inr (), st\<lparr>breedingRecords := breedingRecords st @ [newRecord]\<rparr>))"

definition updateBreedingRecord ::
  "(string \<Rightarrow> UpdateBreedingRecordInput \<Rightarrow> BreedingRecord promise) \<Rightarrow> string
   \<Rightarrow> UpdateBreedingRecordInput \<Rightarrow> store \<Rightarrow> unit promise \<times> store" where
  "updateBreedingRecord breedingRecordsAPI_update i payload st =
     (case breedingRecordsAPI_update i payload of
        Inl error \<Rightarrow> (Inl error, st)
      | Inr updated \<Rightarrow>
          (Inr (),
           st\<lparr>breedingRecords :=
                map (\<lambda>record. if BreedingRecord.id record = i then updated else record)
                  (breedingRecords st)\<rparr>))"

definition deleteBreedingRecord ::
  "(string \<Rightarrow> string promise) \<Rightarrow> string \<Rightarrow> store \<Rightarrow> unit promise \<times> store" where
  "deleteBreedingRecord breedingRecordsAPI_delete i st =
     (case breedingRecordsAPI_delete i of
        Inl error \<Rightarrow> (Inl error, st)
      | Inr message \<Rightarrow>
          (Inr (),
           st\<lparr>breedingRecords := filter (\<lambda>record. BreedingRecord.id record \<noteq> i) (breedingRecords st)\<rparr>))"

definition addInventoryItem ::
  "(CreateInventoryItemInput \<Rightarrow> InventoryItem promise) \<Rightarrow> CreateInventoryItemInput \<Rightarrow> store
   \<Rightarrow> unit promise \<times> store" where
  "addInventoryItem inventoryAPI_create payload st =
     (case inventoryAPI_create payload of
        Inl error \<Rightarrow> (Inl error, st)
      | Inr newItem \<Rightarrow> (Inr (), st\<lparr>inventory := inventory st @ [newItem]\<rparr>))"

definition updateInventoryItem ::
  "(string \<Rightarrow> UpdateInventoryItemInput \<Rightarrow> InventoryItem promise) \<Rightarrow> string
   \<Rightarrow> UpdateInventoryItemInput \<Rightarrow> store \<Rightarrow> unit promise \<times> store" where
  "updateInventoryItem inventoryAPI_update i payload st =
     (case inventoryAPI_update i payload of
        Inl error \<Rightarrow> (Inl error, st)
      | Inr updated \<Rightarrow>
          (Inr (),
           st\<lparr>inventory :=
                map (\<lambda>item. if InventoryItem.id item = i then updated else item)
                  (inventory st)\<rparr>))"

definition deleteInventoryItem ::
  "(string \<Rightarrow> string promise) \<Rightarrow> string \<Rightarrow> store \<Rightarrow> unit promise \<times> store" where
  "deleteInventoryItem inventoryAPI_delete i st =
     (case inventoryAPI_delete i of
        Inl error \<Rightarrow> (Inl error, st)
      | Inr message \<Rightarrow>
          (Inr (),
           st\<lparr>inventory := filter (\<lambda>item. InventoryItem.id item \<noteq> i) (inventory st)\<rparr>))"

definition addStaffMember ::
  "(CreateStaffMemberInput \<Rightarrow> StaffMember promise) \<Rightarrow> CreateStaffMemberInput \<Rightarrow> store
   \<Rightarrow> unit promise \<times> store" where
  "addStaffMember staffAPI_create payload st =
     (case staffAPI_create payload of
        Inl error \<Rightarrow> (Inl error, st)
      | Inr newMember \<Rightarrow> (Inr (), st\<lparr>staff := staff st @ [newMember]\<rparr>))"

definition updateStaffMember ::
  "(string \<Rightarrow> UpdateStaffMemberInput \<Rightarrow> StaffMember promise) \<Rightarrow> string
   \<Rightarrow> UpdateStaffMemberInput \<Rightarrow> store \<Rightarrow> unit promise \<times> store" where
  "updateStaffMember staffAPI_update i payload st =
     (case staffAPI_update i payload of
        Inl error \<Rightarrow> (Inl error, st)
      | Inr updated \<Rightarrow>
          (Inr (),
           st\<lparr>staff :=
                map (\<lambda>member. if StaffMember.id member = i then updated else member)
                  (staff st)\<rparr>))"

definition deleteStaffMember ::
  "(string \<Rightarrow> string promise) \<Rightarrow> string \<Rightarrow> store \<Rightarrow> unit promise \<times> store" where
  "deleteStaffMember staffAPI_delete i st =
     (case staffAPI_delete i of
        Inl error \<Rightarrow> (Inl error, st)
      | Inr message \<Rightarrow>
          (Inr (),
           st\<lparr>staff := filter (\<lambda>member. StaffMember.id member \<noteq> i) (staff st)\<rparr>))"

definition updateSettings ::
  "(UpdateSettingsInput \<Rightarrow> SettingsJson promise) \<Rightarrow> UpdateSettingsInput \<Rightarrow> store
   \<Rightarrow> unit promise \<times> store" where
  "updateSettings settingsAPI_update payload st =
     (case settingsAPI_update payload of
        Inl error \<Rightarrow> (Inl error, st)
      | Inr updated \<Rightarrow> (Inr (), setSettings updated st))"

text \<open>
  \<^verbatim>\<open>
  const currentSettings = { ...settings };
  currentSettings.notificationPreferences[key] = value;
  const updated = await settingsAPI.update(currentSettings);
  setSettings(updated);
  \<close>
  The spread copies the top-level fields only: the copy's \<^verbatim>\<open>notificationPreferences\<close> is
  the very object the state's settings refer to, and the assignment writes into it before
  the request is sent. \<open>body\<close> is what \<^verbatim>\<open>JSON.stringify(currentSettings)\<close> then serialises.
\<close>

definition updateNotificationPreference ::
  "(SettingsJson \<Rightarrow> SettingsJson promise) \<Rightarrow> PrefKey \<Rightarrow> bool \<Rightarrow> store
   \<Rightarrow> unit promise \<times> store" where
  "updateNotificationPreference settingsAPI_update key v st =
     (let copy = settings st;
          r = FacilitySettings.notificationPreferences copy;
          st1 = st\<lparr>heap := (heap st)(r := setPref key v (heap st r))\<rparr>;
          body = readSettings (heap st1) copy
      in case settingsAPI_update body of
           Inl error \<Rightarrow> (Inl error, st1)
         | Inr updated \<Rightarrow> (Inr (), setSettings updated st1))"

section \<open>Breeding statistics (components/BreedingManagement.tsx, lines 97-116)\<close>

text \<open>
  \<^verbatim>\<open>new Date(s).getTime()\<close> is a parameter \<open>getTime\<close>: the milliseconds since the epoch,
  or \<open>None\<close> for an invalid date (\<^verbatim>\<open>NaN\<close>, which fails every comparison). \<open>getMonth\<close> and
  \<open>getFullYear\<close> read the local calendar off such an instant. The callbacks read the
  clock once per record; the model takes one instant \<open>now\<close> for the whole computation.
  The two instants are integers, and the quotient by the milliseconds of a day is
  compared with 0 and 14 only, which the rounding of a floating-point division does not
  change; the quotient is taken in the reals.
\<close>

record BreedingStats =
  pregnancies :: nat
  dueSoon :: nat
  delivered :: nat

definition stats ::
  "(string \<Rightarrow> int option) \<Rightarrow> (int \<Rightarrow> int) \<Rightarrow> (int \<Rightarrow> int) \<Rightarrow> int
   \<Rightarrow> BreedingRecord list \<Rightarrow> BreedingStats" where
  "stats getTime getMonth getFullYear now records =
     (let active = filter (\<lambda>record. BreedingRecord.status record = Pregnant) records;
          deliveredThisMonth =
            filter (\<lambda>record.
                if BreedingRecord.status record \<noteq> Delivered
                   \<or> BreedingRecord.dueDate record = [] then False
                else (case getTime (BreedingRecord.dueDate record) of
                        None \<Rightarrow> False
                      | Some due \<Rightarrow>
                          getMonth due = getMonth now \<and> getFullYear due = getFullYear now))
              records;
          dueSoonRecords =
            filter (\<lambda>record.
                if BreedingRecord.dueDate record = [] then False
                else (case getTime (BreedingRecord.dueDate record) of
                        None \<Rightarrow> False
                      | Some due \<Rightarrow>
                          (let diff = due - now;
                               days = real_of_int diff / (1000 * 60 * 60 * 24)
                           in days \<ge> 0 \<and> days \<le> 14)))
              active
      in \<lparr>pregnancies = length active, dueSoon = length dueSoonRecords,
          delivered = length deliveredThisMonth\<rparr>)"

section \<open>Sequences of successful operations\<close>

text \<open>
  A successful operation, with its arguments and the value its REST call resolved with.
  \<open>applyOp\<close> runs the operation of the store on that reply; \<open>run\<close> runs a sequence, each
  operation on the state the one before it left.
\<close>

datatype storeOp =
    AddAnimal CreateAnimalInput Animal
  | UpdateAnimal string UpdateAnimalInput Animal
  | DeleteAnimal string
  | AddHealthRecord CreateHealthRecordInput HealthRecord
  | UpdateHealthRecord string UpdateHealthRecordInput HealthRecord
  | DeleteHealthRecord string
  | AddFeedingTask CreateFeedingTaskInput FeedingTask
  | UpdateFeedingTask string UpdateFeedingTaskInput FeedingTask
  | DeleteFeedingTask string
  | AddBreedingRecord CreateBreedingRecordInput BreedingRecord
  | UpdateBreedingRecord string UpdateBreedingRecordInput BreedingRecord
  | DeleteBreedingRecord string
  | AddInventoryItem CreateInventoryItemInput InventoryItem
  | UpdateInventoryItem string UpdateInventoryItemInput InventoryItem
  | DeleteInventoryItem string
  | AddStaffMember CreateStaffMemberInput StaffMember
  | UpdateStaffMember string UpdateStaffMemberInput StaffMember
  | DeleteStaffMember string
  | UpdateSettings UpdateSettingsInput SettingsJson
  | UpdateNotificationPreference PrefKey bool SettingsJson

fun applyOp :: "storeOp \<Rightarrow> store \<Rightarrow> store" where
    "applyOp (AddAnimal payload e) st = snd (addAnimal (\<lambda>p. Inr e) payload st)"
  | "applyOp (UpdateAnimal i payload e) st = snd (updateAnimal (\<lambda>j p. Inr e) i payload st)"
  | "applyOp (DeleteAnimal i) st = snd (deleteAnimal (\<lambda>j. Inr []) i st)"
  | "applyOp (AddHealthRecord payload e) st = snd (addHealthRecord (\<lambda>p. Inr e) payload st)"
  | "applyOp (UpdateHealthRecord i payload e) st = snd (updateHealthRecord (\<lambda>j p. Inr e) i payload st)"
  | "applyOp (DeleteHealthRecord i) st = snd (deleteHealthRecord (\<lambda>j. Inr []) i st)"
  | "applyOp (AddFeedingTask payload e) st = snd (addFeedingTask (\<lambda>p. Inr e) payload st)"
  | "applyOp (UpdateFeedingTask i payload e) st = snd (updateFeedingTask (\<lambda>j p. Inr e) i payload st)"
  | "applyOp (DeleteFeedingTask i) st = snd (deleteFeedingTask (\<lambda>j. Inr []) i st)"
  | "applyOp (AddBreedingRecord payload e) st = snd (addBreedingRecord (\<lambda>p. Inr e) payload st)"
  | "applyOp (UpdateBreedingRecord i payload e) st = snd (updateBreedingRecord (\<lambda>j p. Inr e) i payload st)"
  | "applyOp (DeleteBreedingRecord i) st = snd (deleteBreedingRecord (\<lambda>j. Inr []) i st)"
  | "applyOp (AddInventoryItem payload e) st = snd (addInventoryItem (\<lambda>p. Inr e) payload st)"
  | "applyOp (UpdateInventoryItem i payload e) st = snd (updateInventoryItem (\<lambda>j p. Inr e) i payload st)"
  | "applyOp (DeleteInventoryItem i) st = snd (deleteInventoryItem (\<lambda>j. Inr []) i st)"
  | "applyOp (AddStaffMember payload e) st = snd (addStaffMember (\<lambda>p. Inr e) payload st)"
  | "applyOp (UpdateStaffMember i payload e) st = snd (updateStaffMember (\<lambda>j p. Inr e) i payload st)"
  | "applyOp (DeleteStaffMember i) st = snd (deleteStaffMember (\<lambda>j. Inr []) i st)"
  | "applyOp (UpdateSettings payload s) st = snd (updateSettings (\<lambda>p. Inr s) payload st)"
  | "applyOp (UpdateNotificationPreference key v s) st =
     snd (updateNotificationPreference (\<lambda>b. Inr s) key v st)"

fun run :: "storeOp list \<Rightarrow> store \<Rightarrow> store" where
    "run [] st = st"
  | "run (op # ops) st = run ops (applyOp op st)"

datatype collection =
  Animals | HealthRecords | FeedingTasks | BreedingRecords | InventoryItems | Staff

text \<open>The ids of a collection, in display order.\<close>

fun ids :: "collection \<Rightarrow> store \<Rightarrow> string list" where
    "ids Animals st = map Animal.id (animals st)"
  | "ids HealthRecords st = map HealthRecord.id (healthRecords st)"
  | "ids FeedingTasks st = map FeedingTask.id (feedingTasks st)"
  | "ids BreedingRecords st = map BreedingRecord.id (breedingRecords st)"
  | "ids InventoryItems st = map InventoryItem.id (inventory st)"
  | "ids Staff st = map StaffMember.id (staff st)"

text \<open>The id an operation adds to a collection, if it adds one.\<close>

definition added :: "collection \<Rightarrow> storeOp \<Rightarrow> string list" where
  "added c op =
     (case op of
        AddAnimal payload e \<Rightarrow> if c = Animals then [Animal.id e] else []
      | AddHealthRecord payload e \<Rightarrow> if c = HealthRecords then [HealthRecord.id e] else []
      | AddFeedingTask payload e \<Rightarrow> if c = FeedingTasks then [FeedingTask.id e] else []
      | AddBreedingRecord payload e \<Rightarrow> if c = BreedingRecords then [BreedingRecord.id e] else []
      | AddInventoryItem payload e \<Rightarrow> if c = InventoryItems then [InventoryItem.id e] else []
      | AddStaffMember payload e \<Rightarrow> if c = Staff then [StaffMember.id e] else []
      | _ \<Rightarrow> [])"

text \<open>The id an update's reply brings into a collection.\<close>

definition replied :: "collection \<Rightarrow> storeOp \<Rightarrow> string list" where
  "replied c op =
     (case op of
        UpdateAnimal i payload e \<Rightarrow> if c = Animals then [Animal.id e] else []
      | UpdateHealthRecord i payload e \<Rightarrow> if c = HealthRecords then [HealthRecord.id e] else []
      | UpdateFeedingTask i payload e \<Rightarrow> if c = FeedingTasks then [FeedingTask.id e] else []
      | UpdateBreedingRecord i payload e \<Rightarrow> if c = BreedingRecords then [BreedingRecord.id e] else []
      | UpdateInventoryItem i payload e \<Rightarrow> if c = InventoryItems then [InventoryItem.id e] else []
      | UpdateStaffMember i payload e \<Rightarrow> if c = Staff then [StaffMember.id e] else []
      | _ \<Rightarrow> [])"

text \<open>An update whose reply carries the id that was updated; any other operation.\<close>

definition keepsId :: "storeOp \<Rightarrow> bool" where
  "keepsId op =
     (case op of
        UpdateAnimal i payload e \<Rightarrow> Animal.id e = i
      | UpdateHealthRecord i payload e \<Rightarrow> HealthRecord.id e = i
      | UpdateFeedingTask i payload e \<Rightarrow> FeedingTask.id e = i
      | UpdateBreedingRecord i payload e \<Rightarrow> BreedingRecord.id e = i
      | UpdateInventoryItem i payload e \<Rightarrow> InventoryItem.id e = i
      | UpdateStaffMember i payload e \<Rightarrow> StaffMember.id e = i
      | _ \<Rightarrow> True)"

section \<open>Example data\<close>

text \<open>A small facility: two animals, records that refer to them, one stock item and one
  member of staff. The theorems below are instantiated on it.\<close>

definition exRex :: Animal where
  "exRex =
     \<lparr>Animal.id = ''A001'',
      Animal.name = ''Rex'',
      Animal.species = ''Dog'',
      Animal.breed = ''Labrador'',
      Animal.age = 3,
      Animal.gender = Male,
      Animal.weightKg = None,
      Animal.status = Healthy,
      Animal.notes = None\<rparr>"

definition exLuna :: Animal where
  "exLuna =
     \<lparr>Animal.id = ''A002'',
      Animal.name = ''Luna'',
      Animal.species = ''Dog'',
      Animal.breed = ''Beagle'',
      Animal.age = 4,
      Animal.gender = Female,
      Animal.weightKg = Some 11,
      Animal.status = AnimalStatus.Breeding,
      Animal.notes = None\<rparr>"

definition exCheckup :: HealthRecord where
  "exCheckup =
     \<lparr>HealthRecord.id = ''H001'',
      HealthRecord.animalId = ''A001'',
      HealthRecord.recordType = Checkup,
      HealthRecord.description = ''Annual checkup'',
      HealthRecord.date = ''2025-01-02'',
      HealthRecord.veterinarian = ''Dr. Shah'',
      HealthRecord.status = Scheduled,
      HealthRecord.nextDueDate = None,
      HealthRecord.notes = None\<rparr>"

definition exVaccine :: HealthRecord where
  "exVaccine =
     \<lparr>HealthRecord.id = ''H002'',
      HealthRecord.animalId = ''A002'',
      HealthRecord.recordType = Vaccination,
      HealthRecord.description = ''Rabies booster'',
      HealthRecord.date = ''2025-01-03'',
      HealthRecord.veterinarian = ''Dr. Shah'',
      HealthRecord.status = HealthRecordStatus.Completed,
      HealthRecord.nextDueDate = Some ''2026-01-03'',
      HealthRecord.notes = None\<rparr>"

definition exBreakfast :: FeedingTask where
  "exBreakfast =
     \<lparr>FeedingTask.id = ''F001'',
      FeedingTask.animalId = ''A001'',
      FeedingTask.animalName = ''Rex'',
      FeedingTask.foodType = ''Kibble'',
      FeedingTask.quantity = ''200 g'',
      FeedingTask.time = ''08:00'',
      FeedingTask.frequency = Frequency.Daily,
      FeedingTask.status = Pending,
      FeedingTask.startDate = ''2025-01-01''\<rparr>"

definition exDinner :: FeedingTask where
  "exDinner =
     \<lparr>FeedingTask.id = ''F002'',
      FeedingTask.animalId = ''A002'',
      FeedingTask.animalName = ''Luna'',
      FeedingTask.foodType = ''Kibble'',
      FeedingTask.quantity = ''150 g'',
      FeedingTask.time = ''18:00'',
      FeedingTask.frequency = Frequency.Daily,
      FeedingTask.status = Pending,
      FeedingTask.startDate = ''2025-01-01''\<rparr>"

definition exLitter :: BreedingRecord where
  "exLitter =
     \<lparr>BreedingRecord.id = ''B001'',
      BreedingRecord.motherId = ''A002'',
      BreedingRecord.fatherId = ''A001'',
      BreedingRecord.matingDate = ''2024-11-10'',
      BreedingRecord.dueDate = ''2025-01-10'',
      BreedingRecord.expectedLitter = Some ''4-6 puppies'',
      BreedingRecord.actualLitter = None,
      BreedingRecord.status = Pregnant,
      BreedingRecord.notes = None\<rparr>"

definition exKibble :: InventoryItem where
  "exKibble =
     \<lparr>InventoryItem.id = ''I001'',
      InventoryItem.name = ''Kibble'',
      InventoryItem.category = Food,
      InventoryItem.quantity = 50,
      InventoryItem.unit = ''kg'',
      InventoryItem.reorderLevel = 10,
      InventoryItem.costPerUnit = 4,
      InventoryItem.status = InStock\<rparr>"

definition exVet :: StaffMember where
  "exVet =
     \<lparr>StaffMember.id = ''S001'',
      StaffMember.name = ''Dr. Shah'',
      StaffMember.role = Veterinarian,
      StaffMember.email = ''shah@greenvalley.com'',
      StaffMember.phone = ''(555) 000-1111'',
      StaffMember.status = Active,
      StaffMember.joined = ''2023-05-01'',
      StaffMember.notes = None\<rparr>"

definition exStore :: store where
  "exStore =
     (initialStore ''2025-01-01T00:00:00.000Z'')
       \<lparr>animals := [exRex, exLuna],
        healthRecords := [exCheckup, exVaccine],
        feedingTasks := [exBreakfast, exDinner],
        breedingRecords := [exLitter],
        inventory := [exKibble],
        staff := [exVet],
        loading := False\<rparr>"

text \<open>Create payloads, and the entities the server answers them with.\<close>

definition exMaxInput :: CreateAnimalInput where
  "exMaxInput =
     \<lparr>CreateAnimalInput.name = ''Max'',
      CreateAnimalInput.species = ''Cat'',
      CreateAnimalInput.breed = ''Siamese'',
      CreateAnimalInput.age = 2,
      CreateAnimalInput.gender = Male,
      CreateAnimalInput.weightKg = None,
      CreateAnimalInput.status = Healthy,
      CreateAnimalInput.notes = None\<rparr>"

definition exMax :: Animal where
  "exMax =
     \<lparr>Animal.id = ''A003'',
      Animal.name = ''Max'',
      Animal.species = ''Cat'',
      Animal.breed = ''Siamese'',
      Animal.age = 2,
      Animal.gender = Male,
      Animal.weightKg = None,
      Animal.status = Healthy,
      Animal.notes = None\<rparr>"

definition exSurgeryInput :: CreateHealthRecordInput where
  "exSurgeryInput =
     \<lparr>CreateHealthRecordInput.animalId = ''A002'',
      CreateHealthRecordInput.recordType = Surgery,
      CreateHealthRecordInput.description = ''Spay'',
      CreateHealthRecordInput.date = ''2025-02-01'',
      CreateHealthRecordInput.veterinarian = ''Dr. Shah'',
      CreateHealthRecordInput.status = Scheduled,
      CreateHealthRecordInput.nextDueDate = None,
      CreateHealthRecordInput.notes = None\<rparr>"

definition exSurgery :: HealthRecord where
  "exSurgery =
     \<lparr>HealthRecord.id = ''H003'',
      HealthRecord.animalId = ''A002'',
      HealthRecord.recordType = Surgery,
      HealthRecord.description = ''Spay'',
      HealthRecord.date = ''2025-02-01'',
      HealthRecord.veterinarian = ''Dr. Shah'',
      HealthRecord.status = Scheduled,
      HealthRecord.nextDueDate = None,
      HealthRecord.notes = None\<rparr>"

definition exLunchInput :: CreateFeedingTaskInput where
  "exLunchInput =
     \<lparr>CreateFeedingTaskInput.animalId = ''A001'',
      CreateFeedingTaskInput.animalName = ''Rex'',
      CreateFeedingTaskInput.foodType = ''Chicken'',
      CreateFeedingTaskInput.quantity = ''100 g'',
      CreateFeedingTaskInput.time = ''12:00'',
      CreateFeedingTaskInput.frequency = Frequency.Weekly,
      CreateFeedingTaskInput.status = Pending,
      CreateFeedingTaskInput.startDate = ''2025-01-05''\<rparr>"

definition exLunch :: FeedingTask where
  "exLunch =
     \<lparr>FeedingTask.id = ''F003'',
      FeedingTask.animalId = ''A001'',
      FeedingTask.animalName = ''Rex'',
      FeedingTask.foodType = ''Chicken'',
      FeedingTask.quantity = ''100 g'',
      FeedingTask.time = ''12:00'',
      FeedingTask.frequency = Frequency.Weekly,
      FeedingTask.status = Pending,
      FeedingTask.startDate = ''2025-01-05''\<rparr>"

definition exSecondLitterInput :: CreateBreedingRecordInput where
  "exSecondLitterInput =
     \<lparr>CreateBreedingRecordInput.motherId = ''A002'',
      CreateBreedingRecordInput.fatherId = ''A001'',
      CreateBreedingRecordInput.matingDate = ''2025-03-01'',
      CreateBreedingRecordInput.dueDate = ''2025-05-01'',
      CreateBreedingRecordInput.expectedLitter = None,
      CreateBreedingRecordInput.actualLitter = None,
      CreateBreedingRecordInput.status = Pregnant,
      CreateBreedingRecordInput.notes = None\<rparr>"

definition exSecondLitter :: BreedingRecord where
  "exSecondLitter =
     \<lparr>BreedingRecord.id = ''B002'',
      BreedingRecord.motherId = ''A002'',
      BreedingRecord.fatherId = ''A001'',
      BreedingRecord.matingDate = ''2025-03-01'',
      BreedingRecord.dueDate = ''2025-05-01'',
      BreedingRecord.expectedLitter = None,
      BreedingRecord.actualLitter = None,
      BreedingRecord.status = Pregnant,
      BreedingRecord.notes = None\<rparr>"

definition exBandagesInput :: CreateInventoryItemInput where
  "exBandagesInput =
     \<lparr>CreateInventoryItemInput.name = ''Bandages'',
      CreateInventoryItemInput.category = Medicine,
      CreateInventoryItemInput.quantity = 3,
      CreateInventoryItemInput.unit = ''boxes'',
      CreateInventoryItemInput.reorderLevel = 5,
      CreateInventoryItemInput.costPerUnit = 7\<rparr>"

definition exBandages :: InventoryItem where
  "exBandages =
     \<lparr>InventoryItem.id = ''I002'',
      InventoryItem.name = ''Bandages'',
      InventoryItem.category = Medicine,
      InventoryItem.quantity = 3,
      InventoryItem.unit = ''boxes'',
      InventoryItem.reorderLevel = 5,
      InventoryItem.costPerUnit = 7,
      InventoryItem.status = LowStock\<rparr>"

definition exCaretakerInput :: CreateStaffMemberInput where
  "exCaretakerInput =
     \<lparr>CreateStaffMemberInput.name = ''Ana'',
      CreateStaffMemberInput.role = Caretaker,
      CreateStaffMemberInput.email = ''ana@greenvalley.com'',
      CreateStaffMemberInput.phone = ''(555) 000-2222'',
      CreateStaffMemberInput.status = Active,
      CreateStaffMemberInput.joined = ''2024-09-01'',
      CreateStaffMemberInput.notes = None\<rparr>"

definition exCaretaker :: StaffMember where
  "exCaretaker =
     \<lparr>StaffMember.id = ''S002'',
      StaffMember.name = ''Ana'',
      StaffMember.role = Caretaker,
      StaffMember.email = ''ana@greenvalley.com'',
      StaffMember.phone = ''(555) 000-2222'',
      StaffMember.status = Active,
      StaffMember.joined = ''2024-09-01'',
      StaffMember.notes = None\<rparr>"

text \<open>Update payloads that name one field each, and the entities the server answers
  them with. The reply to the stock update carries the status the server derived from the
  new quantity.\<close>

definition exRexAgeUpdate :: UpdateAnimalInput where
  "exRexAgeUpdate =
     \<lparr>UpdateAnimalInput.name = None,
      UpdateAnimalInput.species = None,
      UpdateAnimalInput.breed = None,
      UpdateAnimalInput.age = Some 4,
      UpdateAnimalInput.gender = None,
      UpdateAnimalInput.weightKg = None,
      UpdateAnimalInput.status = None,
      UpdateAnimalInput.notes = None\<rparr>"

definition exRexOlder :: Animal where
  "exRexOlder =
     exRex\<lparr>Animal.age := 4\<rparr>"

definition exCheckupDoneUpdate :: UpdateHealthRecordInput where
  "exCheckupDoneUpdate =
     \<lparr>UpdateHealthRecordInput.animalId = None,
      UpdateHealthRecordInput.recordType = None,
      UpdateHealthRecordInput.description = None,
      UpdateHealthRecordInput.date = None,
      UpdateHealthRecordInput.veterinarian = None,
      UpdateHealthRecordInput.status = Some HealthRecordStatus.Completed,
      UpdateHealthRecordInput.nextDueDate = None,
      UpdateHealthRecordInput.notes = None\<rparr>"

definition exCheckupDone :: HealthRecord where
  "exCheckupDone =
     exCheckup\<lparr>HealthRecord.status := HealthRecordStatus.Completed\<rparr>"

definition exBreakfastDoneUpdate :: UpdateFeedingTaskInput where
  "exBreakfastDoneUpdate =
     \<lparr>UpdateFeedingTaskInput.animalId = None,
      UpdateFeedingTaskInput.animalName = None,
      UpdateFeedingTaskInput.foodType = None,
      UpdateFeedingTaskInput.quantity = None,
      UpdateFeedingTaskInput.time = None,
      UpdateFeedingTaskInput.frequency = None,
      UpdateFeedingTaskInput.status = Some FeedingStatus.Completed,
      UpdateFeedingTaskInput.startDate = None\<rparr>"

definition exBreakfastDone :: FeedingTask where
  "exBreakfastDone =
     exBreakfast\<lparr>FeedingTask.status := FeedingStatus.Completed\<rparr>"

definition exLitterBornUpdate :: UpdateBreedingRecordInput where
  "exLitterBornUpdate =
     \<lparr>UpdateBreedingRecordInput.motherId = None,
      UpdateBreedingRecordInput.fatherId = None,
      UpdateBreedingRecordInput.matingDate = None,
      UpdateBreedingRecordInput.dueDate = None,
      UpdateBreedingRecordInput.expectedLitter = None,
      UpdateBreedingRecordInput.actualLitter = None,
      UpdateBreedingRecordInput.status = Some Delivered,
      UpdateBreedingRecordInput.notes = None\<rparr>"

definition exLitterBorn :: BreedingRecord where
  "exLitterBorn =
     exLitter\<lparr>BreedingRecord.status := Delivered\<rparr>"

definition exKibbleUsedUpdate :: UpdateInventoryItemInput where
  "exKibbleUsedUpdate =
     \<lparr>UpdateInventoryItemInput.name = None,
      UpdateInventoryItemInput.category = None,
      UpdateInventoryItemInput.quantity = Some 5,
      UpdateInventoryItemInput.unit = None,
      UpdateInventoryItemInput.reorderLevel = None,
      UpdateInventoryItemInput.costPerUnit = None,
      UpdateInventoryItemInput.status = None\<rparr>"

definition exKibbleLow :: InventoryItem where
  "exKibbleLow =
     exKibble\<lparr>InventoryItem.quantity := 5, InventoryItem.status := LowStock\<rparr>"

definition exVetLeaveUpdate :: UpdateStaffMemberInput where
  "exVetLeaveUpdate =
     \<lparr>UpdateStaffMemberInput.name = None,
      UpdateStaffMemberInput.role = None,
      UpdateStaffMemberInput.email = None,
      UpdateStaffMemberInput.phone = None,
      UpdateStaffMemberInput.status = Some OnLeave,
      UpdateStaffMemberInput.joined = None,
      UpdateStaffMemberInput.notes = None\<rparr>"

definition exVetOnLeave :: StaffMember where
  "exVetOnLeave =
     exVet\<lparr>StaffMember.status := OnLeave\<rparr>"


definition exNow :: int where
  "exNow = 1735689600000"

definition exGetTime :: "string \<Rightarrow> int option" where
  "exGetTime s =
     (if s = ''2025-01-10'' then Some 1736467200000
      else if s = ''2025-05-01'' then Some 1746057600000
      else None)"

definition exOps :: "storeOp list" where
  "exOps =
     [AddAnimal exMaxInput exMax,
      UpdateAnimal ''A001'' exRexAgeUpdate exRexOlder,
      AddFeedingTask exLunchInput exLunch,
      DeleteAnimal ''A002'',
      UpdateInventoryItem ''I001'' exKibbleUsedUpdate exKibbleLow]"

text \<open>A server that answers the stock update with the item and its derived status, and a
  settings call that fails because the server cannot be reached.\<close>

definition exStockReply :: "string \<Rightarrow> UpdateInventoryItemInput \<Rightarrow> InventoryItem promise" where
  "exStockReply j p = Inr exKibbleLow"

definition exUnreachable :: "SettingsJson \<Rightarrow> SettingsJson promise" where
  "exUnreachable b = Inl (FetchFailed ''Failed to fetch'')"



section \<open>Properties\<close>

subsection \<open>Deleting an animal\<close>

text \<open>
  Claim C1. A successful \<^verbatim>\<open>deleteAnimal(id)\<close> removes the animal with that id from the
  animals, every health record and every feeding task whose \<^verbatim>\<open>animalId\<close> is the id, and
  every breeding record whose \<^verbatim>\<open>motherId\<close> or \<^verbatim>\<open>fatherId\<close> is the id. Each of the four
  collections afterwards is the old one filtered, so every other entry is kept, as often
  and in the order it was there; the inventory, the staff and the settings (the object
  and the preferences it refers to) are unchanged, and so is the rest of the state.
\<close>

theorem deleteAnimal_cascade:
  assumes "animalsAPI_delete i = Inr message"
  shows
    "(case deleteAnimal animalsAPI_delete i st of
        (r, st') \<Rightarrow>
          r = Inr ()
          \<and> animals st' = filter (\<lambda>a. Animal.id a \<noteq> i) (animals st)
          \<and> healthRecords st' = filter (\<lambda>h. HealthRecord.animalId h \<noteq> i) (healthRecords st)
          \<and> feedingTasks st' = filter (\<lambda>t. FeedingTask.animalId t \<noteq> i) (feedingTasks st)
          \<and> breedingRecords st'
              = filter (\<lambda>b. \<not> (BreedingRecord.motherId b = i \<or> BreedingRecord.fatherId b = i))
                  (breedingRecords st)
          \<and> inventory st' = inventory st
          \<and> staff st' = staff st
          \<and> settings st' = settings st
          \<and> heap st' = heap st
          \<and> currentSettings st' = currentSettings st
          \<and> st'\<lparr>animals := animals st, healthRecords := healthRecords st,
                 feedingTasks := feedingTasks st, breedingRecords := breedingRecords st\<rparr>
              = st)"
  using assms by (simp add: deleteAnimal_def currentSettings_def)

text \<open>On the example facility, deleting Rex (\<open>A001\<close>) leaves Luna, her vaccination and
  her dinner; the litter he fathered goes, the stock stays.\<close>

theorem deleteAnimal_cascade_witness:
  "(case deleteAnimal (\<lambda>j. Inr ''Animal deleted'') ''A001'' exStore of
      (r, st') \<Rightarrow>
        r = Inr ()
        \<and> animals st' = [exLuna]
        \<and> healthRecords st' = [exVaccine]
        \<and> feedingTasks st' = [exDinner]
        \<and> breedingRecords st' = []
        \<and> inventory st' = [exKibble]
        \<and> staff st' = [exVet])"
  using deleteAnimal_cascade
    [of "\<lambda>j. Inr ''Animal deleted''" "''A001''" "''Animal deleted''" exStore]
  by (simp add: deleteAnimal_def exStore_def exRex_def exLuna_def exCheckup_def exVaccine_def
      exBreakfast_def exDinner_def exLitter_def)

subsection \<open>Rejected calls\<close>

text \<open>
  Nineteen of the twenty mutating operations touch the state only after their REST call
  has resolved: when the call rejects, the error goes on to the caller and the state is
  the one before the call.
\<close>

lemma rejected_call_leaves_state:
  "(animalsAPI_create p0 = Inl e
        \<longrightarrow> addAnimal animalsAPI_create p0 st = (Inl e, st))
   \<and> (animalsAPI_update i q0 = Inl e
        \<longrightarrow> updateAnimal animalsAPI_update i q0 st = (Inl e, st))
   \<and> (animalsAPI_delete i = Inl e
        \<longrightarrow> deleteAnimal animalsAPI_delete i st = (Inl e, st))
   \<and> (healthRecordsAPI_create p1 = Inl e
        \<longrightarrow> addHealthRecord healthRecordsAPI_create p1 st = (Inl e, st))
   \<and> (healthRecordsAPI_update i q1 = Inl e
        \<longrightarrow> updateHealthRecord healthRecordsAPI_update i q1 st = (Inl e, st))
   \<and> (healthRecordsAPI_delete i = Inl e
        \<longrightarrow> deleteHealthRecord healthRecordsAPI_delete i st = (Inl e, st))
   \<and> (feedingTasksAPI_create p2 = Inl e
        \<longrightarrow> addFeedingTask feedingTasksAPI_create p2 st = (Inl e, st))
   \<and> (feedingTasksAPI_update i q2 = Inl e
        \<longrightarrow> updateFeedingTask feedingTasksAPI_update i q2 st = (Inl e, st))
   \<and> (feedingTasksAPI_delete i = Inl e
        \<longrightarrow> deleteFeedingTask feedingTasksAPI_delete i st = (Inl e, st))
   \<and> (breedingRecordsAPI_create p3 = Inl e
        \<longrightarrow> addBreedingRecord breedingRecordsAPI_create p3 st = (Inl e, st))
   \<and> (breedingRecordsAPI_update i q3 = Inl e
        \<longrightarrow> updateBreedingRecord breedingRecordsAPI_update i q3 st = (Inl e, st))
   \<and> (breedingRecordsAPI_delete i = Inl e
        \<longrightarrow> deleteBreedingRecord breedingRecordsAPI_delete i st = (Inl e, st))
   \<and> (inventoryAPI_create p4 = Inl e
        \<longrightarrow> addInventoryItem inventoryAPI_create p4 st = (Inl e, st))
   \<and> (inventoryAPI_update i q4 = Inl e
        \<longrightarrow> updateInventoryItem inventoryAPI_update i q4 st = (Inl e, st))
   \<and> (inventoryAPI_delete i = Inl e
        \<longrightarrow> deleteInventoryItem inventoryAPI_delete i st = (Inl e, st))
   \<and> (staffAPI_create p5 = Inl e
        \<longrightarrow> addStaffMember staffAPI_create p5 st = (Inl e, st))
   \<and> (staffAPI_update i q5 = Inl e
        \<longrightarrow> updateStaffMember staffAPI_update i q5 st = (Inl e, st))
   \<and> (staffAPI_delete i = Inl e
        \<longrightarrow> deleteStaffMember staffAPI_delete i st = (Inl e, st))
   \<and> (settingsAPI_update u = Inl e
        \<longrightarrow> updateSettings settingsAPI_update u st = (Inl e, st))"
  by (simp add: addAnimal_def updateAnimal_def deleteAnimal_def addHealthRecord_def
      updateHealthRecord_def deleteHealthRecord_def addFeedingTask_def updateFeedingTask_def
      deleteFeedingTask_def addBreedingRecord_def updateBreedingRecord_def
      deleteBreedingRecord_def addInventoryItem_def updateInventoryItem_def
      deleteInventoryItem_def addStaffMember_def updateStaffMember_def deleteStaffMember_def
      updateSettings_def)



lemma readSettings_write:
  "readSettings (h(FacilitySettings.notificationPreferences s := q)) s
     = (readSettings h s)\<lparr>FacilitySettings.notificationPreferences := q\<rparr>"
  by (simp add: readSettings_def withPrefs_def)

lemma readSettings_prefs:
  "FacilitySettings.notificationPreferences (readSettings h s)
     = h (FacilitySettings.notificationPreferences s)"
  by (simp add: readSettings_def withPrefs_def)



lemma updateNotificationPreference_request:
  "updateNotificationPreference api key v st =
     (case api ((currentSettings st)\<lparr>FacilitySettings.notificationPreferences :=
                  setPref key v
                    (FacilitySettings.notificationPreferences (currentSettings st))\<rparr>) of
        Inl e \<Rightarrow>
          (Inl e,
           st\<lparr>heap := (heap st)
                (FacilitySettings.notificationPreferences (settings st) :=
                   setPref key v
                     (heap st (FacilitySettings.notificationPreferences (settings st))))\<rparr>)
      | Inr u \<Rightarrow>
          (Inr (),
           setSettings u
             (st\<lparr>heap := (heap st)
                  (FacilitySettings.notificationPreferences (settings st) :=
                     setPref key v
                       (heap st (FacilitySettings.notificationPreferences (settings st))))\<rparr>)))"
  by (simp add: updateNotificationPreference_def Let_def currentSettings_def readSettings_write
      readSettings_prefs)

lemma updateNotificationPreference_rejected:
  assumes "settingsAPI_update
             ((currentSettings st)\<lparr>FacilitySettings.notificationPreferences :=
                setPref key v (FacilitySettings.notificationPreferences (currentSettings st))\<rparr>)
           = Inl e"
  shows "fst (updateNotificationPreference settingsAPI_update key v st) = Inl e"
    and "(snd (updateNotificationPreference settingsAPI_update key v st))\<lparr>heap := heap st\<rparr> = st"
    and "currentSettings (snd (updateNotificationPreference settingsAPI_update key v st))
           = (currentSettings st)\<lparr>FacilitySettings.notificationPreferences :=
                setPref key v (FacilitySettings.notificationPreferences (currentSettings st))\<rparr>"
  using assms
  by (simp_all add: updateNotificationPreference_request currentSettings_def readSettings_write
      readSettings_prefs)

text \<open>
  Claim C2. Every mutating operation whose REST call rejects passes the error on to its
  caller and leaves the whole local state, the nested notification flags included, as it
  was. The code breaks this in \<^verbatim>\<open>updateNotificationPreference\<close>: on the example facility,
  with \<open>lowStockAlerts\<close> on, switching it off through a call that rejects passes the error
  on and leaves \<open>lowStockAlerts\<close> off in the state.
\<close>

theorem updateNotificationPreference_rejected_flag_written:
  "lowStockAlerts (FacilitySettings.notificationPreferences (currentSettings exStore)) = True
   \<and> fst (updateNotificationPreference exUnreachable KeyLowStockAlerts False exStore)
       = Inl (FetchFailed ''Failed to fetch'')
   \<and> lowStockAlerts (FacilitySettings.notificationPreferences (currentSettings
         (snd (updateNotificationPreference exUnreachable KeyLowStockAlerts False exStore))))
       = False"
  by (simp add: updateNotificationPreference_def exUnreachable_def exStore_def initialStore_def
      currentSettings_def readSettings_def withPrefs_def defaultSettings_def
      defaultPreferences_def Let_def)

subsection \<open>The REST client\<close>

lemma digits_500: "digits 500 = ''500''"
  by code_simp

lemma digits_404: "digits 404 = ''404''"
  by code_simp

text \<open>
  Claim C3, as stated, has the message of a rejection fall back from the body's \<^verbatim>\<open>error\<close>
  field to a generic network-error message and then to the status code as a string. A
  response with status 500 and the body \<^verbatim>\<open>{}\<close> has no \<^verbatim>\<open>error\<close> field, and the message
  is neither of the two: it is the text \<^verbatim>\<open>HTTP error! status: 500\<close>.
\<close>

theorem fetchAPI_status_message_counterexample:
  "map_of (rev []) ''error'' = (None :: json option)
   \<and> \<not> ok \<lparr>Response.status = 500, body = Some (JObj [])\<rparr>
   \<and> fetchAPI (Inr \<lparr>Response.status = 500, body = Some (JObj [])\<rparr>)
       = Inl (Error (JStr ''HTTP error! status: 500''))
   \<and> fetchAPI (Inr \<lparr>Response.status = 500, body = Some (JObj [])\<rparr>)
       \<noteq> Inl (Error (JStr ''Network error''))
   \<and> fetchAPI (Inr \<lparr>Response.status = 500, body = Some (JObj [])\<rparr>)
       \<noteq> Inl (Error (JStr (digits 500)))"
  by (simp add: fetchAPI_def ok_def digits_500)

text \<open>
  Claim C3, amended. A response outside 200-299 always rejects, and a response inside it
  resolves with the parsed body when the body is JSON. A rejection of a non-2xx response
  carries: the message \<^verbatim>\<open>Network error\<close> when the body is not JSON; the body's \<^verbatim>\<open>error\<close>
  field when the body is an object whose \<^verbatim>\<open>error\<close> field is truthy, in particular a
  non-empty string; and the text \<^verbatim>\<open>HTTP error! status: \<close> followed by the decimal status
  code when the body is an object with no \<^verbatim>\<open>error\<close> field or a falsy one.
\<close>

theorem fetchAPI_outcomes:
  "(\<not> ok ra \<longrightarrow> (\<exists>e. fetchAPI (Inr ra) = Inl e))
   \<and> (ok rb \<and> body rb = Some v \<longrightarrow> fetchAPI (Inr rb) = Inr v)
   \<and> (\<not> ok rc \<and> body rc = None \<longrightarrow> fetchAPI (Inr rc) = Inl (Error (JStr ''Network error'')))
   \<and> (\<not> ok rd \<and> body rd = Some (JObj kvsd) \<and> map_of (rev kvsd) ''error'' = Some w \<and> truthy w
        \<longrightarrow> fetchAPI (Inr rd) = Inl (Error w))
   \<and> (\<not> ok re \<and> body re = Some (JObj kvse) \<and> map_of (rev kvse) ''error'' = Some (JStr m) \<and> m \<noteq> []
        \<longrightarrow> fetchAPI (Inr re) = Inl (Error (JStr m)))
   \<and> (\<not> ok rf \<and> body rf = Some (JObj kvsf)
        \<and> (map_of (rev kvsf) ''error'' = None
            \<or> (\<exists>w. map_of (rev kvsf) ''error'' = Some w \<and> \<not> truthy w))
        \<longrightarrow> fetchAPI (Inr rf)
            = Inl (Error (JStr (''HTTP error! status: '' @ digits (Response.status rf)))))"
  by (auto simp add: fetchAPI_def Let_def split: sum.splits option.splits)

text \<open>A 404 with an \<^verbatim>\<open>error\<close> field, a 200 with a list, a 502 whose body is not JSON, and
  a 404 without an \<^verbatim>\<open>error\<close> field.\<close>

theorem fetchAPI_outcomes_witness:
  "fetchAPI (Inr \<lparr>Response.status = 404,
                  body = Some (JObj [(''error'', JStr ''Animal not found'')])\<rparr>)
     = Inl (Error (JStr ''Animal not found''))
   \<and> fetchAPI (Inr \<lparr>Response.status = 200, body = Some (JArr [])\<rparr>) = Inr (JArr [])
   \<and> fetchAPI (Inr \<lparr>Response.status = 502, body = None\<rparr>) = Inl (Error (JStr ''Network error''))
   \<and> fetchAPI (Inr \<lparr>Response.status = 404, body = Some (JObj [(''message'', JStr ''gone'')])\<rparr>)
     = Inl (Error (JStr ''HTTP error! status: 404''))"
  using fetchAPI_outcomes
    [where ra = "\<lparr>Response.status = 404,
                   body = Some (JObj [(''error'', JStr ''Animal not found'')])\<rparr>"
       and rb = "\<lparr>Response.status = 200, body = Some (JArr [])\<rparr>" and v = "JArr []"
       and rc = "\<lparr>Response.status = 502, body = None\<rparr>"
       and rd = "\<lparr>Response.status = 404,
                   body = Some (JObj [(''error'', JStr ''Animal not found'')])\<rparr>"
       and kvsd = "[(''error'', JStr ''Animal not found'')]" and w = "JStr ''Animal not found''"
       and re = "\<lparr>Response.status = 404,
                   body = Some (JObj [(''error'', JStr ''Animal not found'')])\<rparr>"
       and kvse = "[(''error'', JStr ''Animal not found'')]" and m = "''Animal not found''"
       and rf = "\<lparr>Response.status = 404, body = Some (JObj [(''message'', JStr ''gone'')])\<rparr>"
       and kvsf = "[(''message'', JStr ''gone'')]"]
  by (simp add: ok_def digits_404)

subsection \<open>Initial load\<close>




subsection \<open>Adding an entity\<close>

text \<open>
  Claim C5. For each of the six collections and every create payload (a record without
  an id; the stock payload also without a status): when the create call resolves with an
  entity, the operation succeeds and the collection afterwards is the old collection with
  exactly that entity, as the server returned it, appended at the end. The collection is
  one longer, its old entries are its first entries, unchanged and in their order, and
  nothing else in the state changes.
\<close>

theorem add_appends_reply:
  assumes "animalsAPI_create pa = Inr ea"
    and "healthRecordsAPI_create ph = Inr eh"
    and "feedingTasksAPI_create pf = Inr ef"
    and "breedingRecordsAPI_create pb = Inr eb"
    and "inventoryAPI_create pv = Inr ev"
    and "staffAPI_create ps = Inr es"
  shows
    "(case addAnimal animalsAPI_create pa st of
        (r, st') \<Rightarrow>
          r = Inr ()
          \<and> animals st' = animals st @ [ea]
          \<and> length (animals st') = Suc (length (animals st))
          \<and> take (length (animals st)) (animals st') = animals st
          \<and> st'\<lparr>animals := animals st\<rparr> = st)
     \<and> (case addHealthRecord healthRecordsAPI_create ph st of
        (r, st') \<Rightarrow>
          r = Inr ()
          \<and> healthRecords st' = healthRecords st @ [eh]
          \<and> length (healthRecords st') = Suc (length (healthRecords st))
          \<and> take (length (healthRecords st)) (healthRecords st') = healthRecords st
          \<and> st'\<lparr>healthRecords := healthRecords st\<rparr> = st)
     \<and> (case addFeedingTask feedingTasksAPI_create pf st of
        (r, st') \<Rightarrow>
          r = Inr ()
          \<and> feedingTasks st' = feedingTasks st @ [ef]
          \<and> length (feedingTasks st') = Suc (length (feedingTasks st))
          \<and> take (length (feedingTasks st)) (feedingTasks st') = feedingTasks st
          \<and> st'\<lparr>feedingTasks := feedingTasks st\<rparr> = st)
     \<and> (case addBreedingRecord breedingRecordsAPI_create pb st of
        (r, st') \<Rightarrow>
          r = Inr ()
          \<and> breedingRecords st' = breedingRecords st @ [eb]
          \<and> length (breedingRecords st') = Suc (length (breedingRecords st))
          \<and> take (length (breedingRecords st)) (breedingRecords st') = breedingRecords st
          \<and> st'\<lparr>breedingRecords := breedingRecords st\<rparr> = st)
     \<and> (case addInventoryItem inventoryAPI_create pv st of
        (r, st') \<Rightarrow>
          r = Inr ()
          \<and> inventory st' = inventory st @ [ev]
          \<and> length (inventory st') = Suc (length (inventory st))
          \<and> take (length (inventory st)) (inventory st') = inventory st
          \<and> st'\<lparr>inventory := inventory st\<rparr> = st)
     \<and> (case addStaffMember staffAPI_create ps st of
        (r, st') \<Rightarrow>
          r = Inr ()
          \<and> staff st' = staff st @ [es]
          \<and> length (staff st') = Suc (length (staff st))
          \<and> take (length (staff st)) (staff st') = staff st
          \<and> st'\<lparr>staff := staff st\<rparr> = st)"
  using assms
  by (simp_all add: addAnimal_def addHealthRecord_def addFeedingTask_def
      addBreedingRecord_def addInventoryItem_def addStaffMember_def)

text \<open>On the example facility each collection gains the server's entity at its end.\<close>

theorem add_appends_reply_witness:
  "animals (snd (addAnimal (\<lambda>p. Inr exMax) exMaxInput exStore))
       = [exRex, exLuna, exMax]
   \<and> healthRecords (snd (addHealthRecord (\<lambda>p. Inr exSurgery) exSurgeryInput exStore))
       = [exCheckup, exVaccine, exSurgery]
   \<and> feedingTasks (snd (addFeedingTask (\<lambda>p. Inr exLunch) exLunchInput exStore))
       = [exBreakfast, exDinner, exLunch]
   \<and> breedingRecords (snd (addBreedingRecord (\<lambda>p. Inr exSecondLitter) exSecondLitterInput exStore))
       = [exLitter, exSecondLitter]
   \<and> inventory (snd (addInventoryItem (\<lambda>p. Inr exBandages) exBandagesInput exStore))
       = [exKibble, exBandages]
   \<and> staff (snd (addStaffMember (\<lambda>p. Inr exCaretaker) exCaretakerInput exStore))
       = [exVet, exCaretaker]"
  using add_appends_reply
    [where st = exStore
       and animalsAPI_create = "\<lambda>p. Inr exMax" and pa = exMaxInput and ea = exMax
       and healthRecordsAPI_create = "\<lambda>p. Inr exSurgery" and ph = exSurgeryInput and eh = exSurgery
       and feedingTasksAPI_create = "\<lambda>p. Inr exLunch" and pf = exLunchInput and ef = exLunch
       and breedingRecordsAPI_create = "\<lambda>p. Inr exSecondLitter" and pb = exSecondLitterInput and eb = exSecondLitter
       and inventoryAPI_create = "\<lambda>p. Inr exBandages" and pv = exBandagesInput and ev = exBandages
       and staffAPI_create = "\<lambda>p. Inr exCaretaker" and ps = exCaretakerInput and es = exCaretaker]
  by (simp add: case_prod_unfold exStore_def)

subsection \<open>Updating an entity\<close>

lemma find_map_replace:
  "i \<in> f ` set xs \<Longrightarrow> f e = i
   \<Longrightarrow> find (\<lambda>x. f x = i) (map (\<lambda>x. if f x = i then e else x) xs) = Some e"
  by (induction xs) auto

text \<open>
  Claim C6, as stated, ends with: reading the entity by id afterwards shows exactly the
  payload's fields changed and every other field unchanged. The store keeps what the
  server returned. On the example facility a stock update that names the quantity only,
  answered with the item and the status the server derived for the new quantity, changes
  the status from \<open>InStock\<close> to \<open>LowStock\<close>, a field the payload does not name.
\<close>

theorem update_unnamed_field_counterexample:
  "UpdateInventoryItemInput.status exKibbleUsedUpdate = None
   \<and> map InventoryItem.id (inventory exStore) = [''I001'']
   \<and> map InventoryItem.status (inventory exStore) = [InStock]
   \<and> fst (updateInventoryItem exStockReply ''I001'' exKibbleUsedUpdate exStore) = Inr ()
   \<and> map InventoryItem.id
        (inventory (snd (updateInventoryItem exStockReply ''I001'' exKibbleUsedUpdate exStore)))
       = [''I001'']
   \<and> map InventoryItem.status
        (inventory (snd (updateInventoryItem exStockReply ''I001'' exKibbleUsedUpdate exStore)))
       = [LowStock]"
  by (simp add: updateInventoryItem_def exStockReply_def exStore_def exKibble_def exKibbleLow_def
      exKibbleUsedUpdate_def)

text \<open>
  Claim C6, amended. For each of the six collections, every id and every partial payload:
  a successful update puts the entity the server returned at every position whose entity
  carries the id and leaves every other position as it was, so the length and the order
  are kept; nothing else in the state changes. When the id is present and the returned
  entity carries it, reading the entity by id afterwards gives exactly the returned
  entity: its fields are the server's answer, not a merge made by the store.
\<close>

theorem update_replaces_in_place:
  assumes "animalsAPI_update ja pa = Inr ea"
    and "healthRecordsAPI_update jh ph = Inr eh"
    and "feedingTasksAPI_update jf pf = Inr ef"
    and "breedingRecordsAPI_update jb pb = Inr eb"
    and "inventoryAPI_update jv pv = Inr ev"
    and "staffAPI_update js ps = Inr es"
  shows
    "(case updateAnimal animalsAPI_update ja pa st of
        (r, st') \<Rightarrow>
          r = Inr ()
          \<and> length (animals st') = length (animals st)
          \<and> (\<forall>k < length (animals st).
                animals st' ! k = (if Animal.id (animals st ! k) = ja then ea else animals st ! k))
          \<and> st'\<lparr>animals := animals st\<rparr> = st
          \<and> (ja \<in> Animal.id ` set (animals st) \<and> Animal.id ea = ja
               \<longrightarrow> find (\<lambda>x. Animal.id x = ja) (animals st') = Some ea))
     \<and> (case updateHealthRecord healthRecordsAPI_update jh ph st of
        (r, st') \<Rightarrow>
          r = Inr ()
          \<and> length (healthRecords st') = length (healthRecords st)
          \<and> (\<forall>k < length (healthRecords st).
                healthRecords st' ! k = (if HealthRecord.id (healthRecords st ! k) = jh then eh else healthRecords st ! k))
          \<and> st'\<lparr>healthRecords := healthRecords st\<rparr> = st
          \<and> (jh \<in> HealthRecord.id ` set (healthRecords st) \<and> HealthRecord.id eh = jh
               \<longrightarrow> find (\<lambda>x. HealthRecord.id x = jh) (healthRecords st') = Some eh))
     \<and> (case updateFeedingTask feedingTasksAPI_update jf pf st of
        (r, st') \<Rightarrow>
          r = Inr ()
          \<and> length (feedingTasks st') = length (feedingTasks st)
          \<and> (\<forall>k < length (feedingTasks st).
                feedingTasks st' ! k = (if FeedingTask.id (feedingTasks st ! k) = jf then ef else feedingTasks st ! k))
          \<and> st'\<lparr>feedingTasks := feedingTasks st\<rparr> = st
          \<and> (jf \<in> FeedingTask.id ` set (feedingTasks st) \<and> FeedingTask.id ef = jf
               \<longrightarrow> find (\<lambda>x. FeedingTask.id x = jf) (feedingTasks st') = Some ef))
     \<and> (case updateBreedingRecord breedingRecordsAPI_update jb pb st of
        (r, st') \<Rightarrow>
          r = Inr ()
          \<and> length (breedingRecords st') = length (breedingRecords st)
          \<and> (\<forall>k < length (breedingRecords st).
                breedingRecords st' ! k = (if BreedingRecord.id (breedingRecords st ! k) = jb then eb else breedingRecords st ! k))
          \<and> st'\<lparr>breedingRecords := breedingRecords st\<rparr> = st
          \<and> (jb \<in> BreedingRecord.id ` set (breedingRecords st) \<and> BreedingRecord.id eb = jb
               \<longrightarrow> find (\<lambda>x. BreedingRecord.id x = jb) (breedingRecords st') = Some eb))
     \<and> (case updateInventoryItem inventoryAPI_update jv pv st of
        (r, st') \<Rightarrow>
          r = Inr ()
          \<and> length (inventory st') = length (inventory st)
          \<and> (\<forall>k < length (inventory st).
                inventory st' ! k = (if InventoryItem.id (inventory st ! k) = jv then ev else inventory st ! k))
          \<and> st'\<lparr>inventory := inventory st\<rparr> = st
          \<and> (jv \<in> InventoryItem.id ` set (inventory st) \<and> InventoryItem.id ev = jv
               \<longrightarrow> find (\<lambda>x. InventoryItem.id x = jv) (inventory st') = Some ev))
     \<and> (case updateStaffMember staffAPI_update js ps st of
        (r, st') \<Rightarrow>
          r = Inr ()
          \<and> length (staff st') = length (staff st)
          \<and> (\<forall>k < length (staff st).
                staff st' ! k = (if StaffMember.id (staff st ! k) = js then es else staff st ! k))
          \<and> st'\<lparr>staff := staff st\<rparr> = st
          \<and> (js \<in> StaffMember.id ` set (staff st) \<and> StaffMember.id es = js
               \<longrightarrow> find (\<lambda>x. StaffMember.id x = js) (staff st') = Some es))"
  using assms
  by (simp_all add: updateAnimal_def updateHealthRecord_def updateFeedingTask_def
      updateBreedingRecord_def updateInventoryItem_def updateStaffMember_def
      find_map_replace)

text \<open>On the example facility one entity of each collection is updated in place.\<close>

theorem update_replaces_in_place_witness:
  "(case updateAnimal (\<lambda>j p. Inr exRexOlder) ''A001'' exRexAgeUpdate exStore of
        (r, st') \<Rightarrow>
          animals st' = [exRexOlder, exLuna]
          \<and> find (\<lambda>x. Animal.id x = ''A001'') (animals st') = Some exRexOlder)
   \<and> (case updateHealthRecord (\<lambda>j p. Inr exCheckupDone) ''H001'' exCheckupDoneUpdate exStore of
        (r, st') \<Rightarrow>
          healthRecords st' = [exCheckupDone, exVaccine]
          \<and> find (\<lambda>x. HealthRecord.id x = ''H001'') (healthRecords st') = Some exCheckupDone)
   \<and> (case updateFeedingTask (\<lambda>j p. Inr exBreakfastDone) ''F001'' exBreakfastDoneUpdate exStore of
        (r, st') \<Rightarrow>
          feedingTasks st' = [exBreakfastDone, exDinner]
          \<and> find (\<lambda>x. FeedingTask.id x = ''F001'') (feedingTasks st') = Some exBreakfastDone)
   \<and> (case updateBreedingRecord (\<lambda>j p. Inr exLitterBorn) ''B001'' exLitterBornUpdate exStore of
        (r, st') \<Rightarrow>
          breedingRecords st' = [exLitterBorn]
          \<and> find (\<lambda>x. BreedingRecord.id x = ''B001'') (breedingRecords st') = Some exLitterBorn)
   \<and> (case updateInventoryItem (\<lambda>j p. Inr exKibbleLow) ''I001'' exKibbleUsedUpdate exStore of
        (r, st') \<Rightarrow>
          inventory st' = [exKibbleLow]
          \<and> find (\<lambda>x. InventoryItem.id x = ''I001'') (inventory st') = Some exKibbleLow)
   \<and> (case updateStaffMember (\<lambda>j p. Inr exVetOnLeave) ''S001'' exVetLeaveUpdate exStore of
        (r, st') \<Rightarrow>
          staff st' = [exVetOnLeave]
          \<and> find (\<lambda>x. StaffMember.id x = ''S001'') (staff st') = Some exVetOnLeave)"
  using update_replaces_in_place
    [where st = exStore
       and animalsAPI_update = "\<lambda>j p. Inr exRexOlder" and ja = "''A001''"
       and pa = exRexAgeUpdate and ea = exRexOlder
       and healthRecordsAPI_update = "\<lambda>j p. Inr exCheckupDone" and jh = "''H001''"
       and ph = exCheckupDoneUpdate and eh = exCheckupDone
       and feedingTasksAPI_update = "\<lambda>j p. Inr exBreakfastDone" and jf = "''F001''"
       and pf = exBreakfastDoneUpdate and ef = exBreakfastDone
       and breedingRecordsAPI_update = "\<lambda>j p. Inr exLitterBorn" and jb = "''B001''"
       and pb = exLitterBornUpdate and eb = exLitterBorn
       and inventoryAPI_update = "\<lambda>j p. Inr exKibbleLow" and jv = "''I001''"
       and pv = exKibbleUsedUpdate and ev = exKibbleLow
       and staffAPI_update = "\<lambda>j p. Inr exVetOnLeave" and js = "''S001''"
       and ps = exVetLeaveUpdate and es = exVetOnLeave]
  by (simp add: exStore_def exRex_def exLuna_def exCheckup_def exVaccine_def exBreakfast_def
      exDinner_def exLitter_def exKibble_def exVet_def exRexOlder_def exCheckupDone_def
      exBreakfastDone_def exLitterBorn_def exKibbleLow_def exVetOnLeave_def updateAnimal_def
      updateHealthRecord_def updateFeedingTask_def updateBreedingRecord_def
      updateInventoryItem_def updateStaffMember_def)

subsection \<open>Switching one notification flag\<close>




subsection \<open>Breeding records due soon\<close>

lemma due_window:
  "(0 \<le> real_of_int (due - now) / (1000 * 60 * 60 * 24)
      \<and> real_of_int (due - now) / (1000 * 60 * 60 * 24) \<le> 14)
   \<longleftrightarrow> (now \<le> due \<and> due \<le> now + 14 * 86400000)"
proof -
  have "real_of_int (due - now) / (1000 * 60 * 60 * 24) \<le> 14
          \<longleftrightarrow> real_of_int (due - now) \<le> 14 * 86400000"
    by (simp add: field_simps)
  moreover have "0 \<le> real_of_int (due - now) / (1000 * 60 * 60 * 24)
          \<longleftrightarrow> 0 \<le> real_of_int (due - now)"
    by (simp add: zero_le_divide_iff)
  ultimately show ?thesis
    by (metis (no_types, opaque_lifting) add.commute diff_ge_0_iff_ge diff_le_eq
        of_int_0_le_iff of_int_le_iff of_int_numeral of_int_mult)
qed

text \<open>
  Claim C8. For every list of breeding records and every instant \<open>now\<close>, the ``due soon''
  count is the number of records that are pregnant and whose due date is a valid date
  not before \<open>now\<close> and at most 14 days (\<open>14 * 86400000\<close> milliseconds) after it. A record
  whose due date is empty or not a date is not counted.
\<close>

theorem dueSoon_counts_pregnancies_due_within_14_days:
  "dueSoon (stats getTime getMonth getFullYear now records)
     = length (filter (\<lambda>r. BreedingRecord.status r = Pregnant
                          \<and> BreedingRecord.dueDate r \<noteq> []
                          \<and> (\<exists>due. getTime (BreedingRecord.dueDate r) = Some due
                                    \<and> now \<le> due \<and> due \<le> now + 14 * 86400000))
                records)"
proof -
  have "filter (\<lambda>record.
                if BreedingRecord.dueDate record = [] then False
                else (case getTime (BreedingRecord.dueDate record) of
                        None \<Rightarrow> False
                      | Some due \<Rightarrow>
                          (let diff = due - now;
                               days = real_of_int diff / (1000 * 60 * 60 * 24)
                           in days \<ge> 0 \<and> days \<le> 14)))
          (filter (\<lambda>record. BreedingRecord.status record = Pregnant) records)
        = filter (\<lambda>r. BreedingRecord.status r = Pregnant
                          \<and> BreedingRecord.dueDate r \<noteq> []
                          \<and> (\<exists>due. getTime (BreedingRecord.dueDate r) = Some due
                                    \<and> now \<le> due \<and> due \<le> now + 14 * 86400000))
                records"
    unfolding filter_filter Let_def
    by (rule filter_cong) (auto simp: due_window split: option.splits)
  then show ?thesis
    by (simp add: stats_def Let_def)
qed

text \<open>On 1 January 2025, of a litter due on 10 January, one due on 1 May and one already
  delivered, only the first is due soon.\<close>

theorem dueSoon_counts_pregnancies_due_within_14_days_witness:
  "dueSoon (stats exGetTime (\<lambda>t. 0) (\<lambda>t. 0) exNow [exLitter, exSecondLitter, exLitterBorn]) = 1"
  using dueSoon_counts_pregnancies_due_within_14_days
    [of exGetTime "\<lambda>t. 0" "\<lambda>t. 0" exNow "[exLitter, exSecondLitter, exLitterBorn]"]
  by (simp add: exGetTime_def exNow_def exLitter_def exSecondLitter_def exLitterBorn_def)

subsection \<open>Updating an id that is not there\<close>

lemma map_replace_absent:
  "i \<notin> f ` set xs \<Longrightarrow> map (\<lambda>x. if f x = i then e else x) xs = xs"
  by (induction xs) auto

text \<open>
  Claim C9. For each of the six collections: a successful update of an id that no local
  entity carries leaves the whole state as it was; the entity the server returned is not
  inserted. An update never changes the length of a collection.
\<close>

theorem update_absent_id_unchanged:
  assumes "animalsAPI_update i pa = Inr ea"
    and "healthRecordsAPI_update i ph = Inr eh"
    and "feedingTasksAPI_update i pf = Inr ef"
    and "breedingRecordsAPI_update i pb = Inr eb"
    and "inventoryAPI_update i pv = Inr ev"
    and "staffAPI_update i ps = Inr es"
  shows
    "(i \<notin> Animal.id ` set (animals st)
        \<longrightarrow> updateAnimal animalsAPI_update i pa st = (Inr (), st))
     \<and> length (animals (snd (updateAnimal animalsAPI_update i pa st))) = length (animals st)
     \<and> (i \<notin> HealthRecord.id ` set (healthRecords st)
        \<longrightarrow> updateHealthRecord healthRecordsAPI_update i ph st = (Inr (), st))
     \<and> length (healthRecords (snd (updateHealthRecord healthRecordsAPI_update i ph st))) = length (healthRecords st)
     \<and> (i \<notin> FeedingTask.id ` set (feedingTasks st)
        \<longrightarrow> updateFeedingTask feedingTasksAPI_update i pf st = (Inr (), st))
     \<and> length (feedingTasks (snd (updateFeedingTask feedingTasksAPI_update i pf st))) = length (feedingTasks st)
     \<and> (i \<notin> BreedingRecord.id ` set (breedingRecords st)
        \<longrightarrow> updateBreedingRecord breedingRecordsAPI_update i pb st = (Inr (), st))
     \<and> length (breedingRecords (snd (updateBreedingRecord breedingRecordsAPI_update i pb st))) = length (breedingRecords st)
     \<and> (i \<notin> InventoryItem.id ` set (inventory st)
        \<longrightarrow> updateInventoryItem inventoryAPI_update i pv st = (Inr (), st))
     \<and> length (inventory (snd (updateInventoryItem inventoryAPI_update i pv st))) = length (inventory st)
     \<and> (i \<notin> StaffMember.id ` set (staff st)
        \<longrightarrow> updateStaffMember staffAPI_update i ps st = (Inr (), st))
     \<and> length (staff (snd (updateStaffMember staffAPI_update i ps st))) = length (staff st)"
  using assms
  by (auto simp add: updateAnimal_def updateHealthRecord_def updateFeedingTask_def
      updateBreedingRecord_def updateInventoryItem_def updateStaffMember_def
      map_replace_absent)

text \<open>On the example facility no collection has the id \<open>X999\<close>.\<close>

theorem update_absent_id_unchanged_witness:
  "updateAnimal (\<lambda>j p. Inr exRexOlder) ''X999'' exRexAgeUpdate exStore
       = (Inr (), exStore)
   \<and> updateHealthRecord (\<lambda>j p. Inr exCheckupDone) ''X999'' exCheckupDoneUpdate exStore
       = (Inr (), exStore)
   \<and> updateFeedingTask (\<lambda>j p. Inr exBreakfastDone) ''X999'' exBreakfastDoneUpdate exStore
       = (Inr (), exStore)
   \<and> updateBreedingRecord (\<lambda>j p. Inr exLitterBorn) ''X999'' exLitterBornUpdate exStore
       = (Inr (), exStore)
   \<and> updateInventoryItem (\<lambda>j p. Inr exKibbleLow) ''X999'' exKibbleUsedUpdate exStore
       = (Inr (), exStore)
   \<and> updateStaffMember (\<lambda>j p. Inr exVetOnLeave) ''X999'' exVetLeaveUpdate exStore
       = (Inr (), exStore)"
  using update_absent_id_unchanged
    [where st = exStore and i = "''X999''"
       and animalsAPI_update = "\<lambda>j p. Inr exRexOlder" and pa = exRexAgeUpdate and ea = exRexOlder
       and healthRecordsAPI_update = "\<lambda>j p. Inr exCheckupDone" and ph = exCheckupDoneUpdate and eh = exCheckupDone
       and feedingTasksAPI_update = "\<lambda>j p. Inr exBreakfastDone" and pf = exBreakfastDoneUpdate and ef = exBreakfastDone
       and breedingRecordsAPI_update = "\<lambda>j p. Inr exLitterBorn" and pb = exLitterBornUpdate and eb = exLitterBorn
       and inventoryAPI_update = "\<lambda>j p. Inr exKibbleLow" and pv = exKibbleUsedUpdate and ev = exKibbleLow
       and staffAPI_update = "\<lambda>j p. Inr exVetOnLeave" and ps = exVetLeaveUpdate and es = exVetOnLeave]
  by (simp add: exStore_def exRex_def exLuna_def exCheckup_def exVaccine_def exBreakfast_def
      exDinner_def exLitter_def exKibble_def exVet_def)

subsection \<open>Display order\<close>

text \<open>One successful operation. The ids of each collection afterwards embed, in order,
  into the ids before followed by the id the operation added: an id at a position that
  is kept is the id that was there, or the id of the update's reply.\<close>

lemma list_emb_map_pointwise:
  "(\<And>x. x \<in> set xs \<Longrightarrow> R (g x) (f x)) \<Longrightarrow> list_emb R (map g xs) (map f xs)"
  by (induction xs) auto

lemma list_emb_subseq:
  "(\<And>x. R x x) \<Longrightarrow> subseq xs ys \<Longrightarrow> list_emb R xs ys"
  using list_emb_mono [of "(=)" R] by blast

lemma applyOp_embeds:
  "list_emb (\<lambda>x y. x = y \<or> x \<in> set (replied c op)) (ids c (applyOp op st))
     (ids c st @ added c op)"
  by (cases op; cases c)
     (simp_all add: replied_def added_def addAnimal_def updateAnimal_def deleteAnimal_def
        addHealthRecord_def updateHealthRecord_def deleteHealthRecord_def
        addFeedingTask_def updateFeedingTask_def deleteFeedingTask_def
        addBreedingRecord_def updateBreedingRecord_def deleteBreedingRecord_def
        addInventoryItem_def updateInventoryItem_def deleteInventoryItem_def
        addStaffMember_def updateStaffMember_def deleteStaffMember_def
        updateSettings_def updateNotificationPreference_def setSettings_def Let_def
        list_emb_map_pointwise list_emb_subseq subseq_map list_emb_refl list_emb_append_mono)

lemma map_key_replace:
  "f e = i \<Longrightarrow> map (f \<circ> (\<lambda>x. if f x = i then e else x)) xs = map f xs"
  by (induction xs) auto

lemma applyOp_order:
  "keepsId op \<Longrightarrow> subseq (ids c (applyOp op st)) (ids c st @ added c op)"
  by (cases op; cases c)
     (simp_all add: keepsId_def added_def addAnimal_def updateAnimal_def deleteAnimal_def
        addHealthRecord_def updateHealthRecord_def deleteHealthRecord_def
        addFeedingTask_def updateFeedingTask_def deleteFeedingTask_def
        addBreedingRecord_def updateBreedingRecord_def deleteBreedingRecord_def
        addInventoryItem_def updateInventoryItem_def deleteInventoryItem_def
        addStaffMember_def updateStaffMember_def deleteStaffMember_def
        updateSettings_def updateNotificationPreference_def setSettings_def Let_def
        map_key_replace subseq_map)

text \<open>
  Claim C10. No sequence of successful operations permutes a collection. An add puts its
  entity at the tail, an update keeps the position of the entity it replaces, a delete
  (the animal cascade included) drops entries and moves none. So, for updates whose reply
  carries the id that was updated, the ids of each collection after the sequence are a
  subsequence of the ids it started with, in their order, followed by the ids added, in
  the order they were added.
\<close>

text \<open>A sequence of successful operations, by induction on the sequence.\<close>

lemma run_embeds:
  "set (concat (map (replied c) ops)) \<subseteq> S
   \<Longrightarrow> list_emb (\<lambda>x y. x = y \<or> x \<in> S) (ids c (run ops st))
         (ids c st @ concat (map (added c) ops))"
proof (induction ops arbitrary: st)
  case Nil
  then show ?case by (simp add: list_emb_refl)
next
  case (Cons op ops)
  let ?P = "\<lambda>x y. x = y \<or> x \<in> S"
  let ?rest = "concat (map (added c) ops)"
  have "list_emb (\<lambda>x y. x = y \<or> x \<in> set (replied c op)) (ids c (applyOp op st))
          (ids c st @ added c op)"
    by (rule applyOp_embeds)
  moreover have "\<And>x y. x = y \<or> x \<in> set (replied c op) \<Longrightarrow> ?P x y"
    using Cons.prems by auto
  ultimately have step: "list_emb ?P (ids c (applyOp op st)) (ids c st @ added c op)"
    using list_emb_mono [of "\<lambda>x y. x = y \<or> x \<in> set (replied c op)" ?P] by blast
  have rest: "list_emb ?P ?rest ?rest"
    by (simp add: list_emb_refl)
  have later: "list_emb ?P (ids c (run ops (applyOp op st))) (ids c (applyOp op st) @ ?rest)"
    using Cons.IH Cons.prems by simp
  have "list_emb ?P (ids c (applyOp op st) @ ?rest) ((ids c st @ added c op) @ ?rest)"
    using list_emb_append_mono [OF step rest] .
  with later have "list_emb ?P (ids c (run ops (applyOp op st))) ((ids c st @ added c op) @ ?rest)"
    by (rule list_emb_trans [rotated]) auto
  then show ?case by simp
qed

lemma run_subseq:
  "(\<forall>op \<in> set ops. keepsId op)
   \<Longrightarrow> subseq (ids c (run ops st)) (ids c st @ concat (map (added c) ops))"
proof (induction ops arbitrary: st)
  case Nil
  then show ?case by simp
next
  case (Cons op ops)
  have step: "subseq (ids c (applyOp op st)) (ids c st @ added c op)"
    using Cons.prems by (simp add: applyOp_order)
  have "subseq (ids c (run ops (applyOp op st)))
          (ids c (applyOp op st) @ concat (map (added c) ops))"
    using Cons.IH Cons.prems by simp
  also have "subseq (ids c (applyOp op st) @ concat (map (added c) ops))
          ((ids c st @ added c op) @ concat (map (added c) ops))"
    using list_emb_append_mono [OF step subseq_order.order_refl] .
  finally show ?case by simp
qed

text \<open>On the example facility: an animal is added, one updated, a feeding task added, an
  animal deleted with its cascade, a stock item updated.\<close>

text \<open>
  Claim C10. No sequence of successful operations permutes a collection: an add puts its
  entity at the tail, an update keeps the position of the entity it replaces, a delete
  (the animal cascade included) drops entries and moves none. For every sequence, the ids
  of each collection afterwards embed, in order, into the ids it started with followed
  by the ids added in the order they were added, where a position that is kept holds
  the id it held or the id of an update's reply. When every update's reply carries the
  id that was updated, the ids afterwards are a subsequence of that list.
\<close>

theorem operations_keep_display_order:
  "list_emb (\<lambda>x y. x = y \<or> x \<in> set (concat (map (replied c) ops)))
     (ids c (run ops st)) (ids c st @ concat (map (added c) ops))
   \<and> ((\<forall>op \<in> set ops. keepsId op)
        \<longrightarrow> subseq (ids c (run ops st)) (ids c st @ concat (map (added c) ops)))"
  using run_embeds [of c ops "set (concat (map (replied c) ops))" st] run_subseq [of ops c st]
  by blast

text \<open>On the example facility: an animal is added, one updated, a feeding task added, an
  animal deleted with its cascade, a stock item updated. The animals afterwards are Rex
  and Max, in that order, out of Rex, Luna and Max.\<close>

theorem operations_keep_display_order_witness:
  "ids Animals (run exOps exStore) = [''A001'', ''A003'']
   \<and> ids FeedingTasks (run exOps exStore) = [''F001'', ''F003'']
   \<and> ids Animals exStore @ concat (map (added Animals) exOps) = [''A001'', ''A002'', ''A003'']
   \<and> subseq (ids Animals (run exOps exStore))
        (ids Animals exStore @ concat (map (added Animals) exOps))"
proof -
  have h: "\<forall>op \<in> set exOps. keepsId op"
    by (simp add: exOps_def keepsId_def exRexOlder_def exRex_def exKibbleLow_def exKibble_def)
  have a: "ids Animals (run exOps exStore) = [''A001'', ''A003'']"
    by (simp add: exOps_def exStore_def addAnimal_def updateAnimal_def addFeedingTask_def
        deleteAnimal_def updateInventoryItem_def exRex_def exLuna_def exMax_def exRexOlder_def)
  have f: "ids FeedingTasks (run exOps exStore) = [''F001'', ''F003'']"
    by (simp add: exOps_def exStore_def addAnimal_def updateAnimal_def addFeedingTask_def
        deleteAnimal_def updateInventoryItem_def exBreakfast_def exDinner_def exLunch_def)
  have t: "ids Animals exStore @ concat (map (added Animals) exOps)
             = [''A001'', ''A002'', ''A003'']"
    by (simp add: exOps_def exStore_def added_def exRex_def exLuna_def exMax_def)
  have s: "subseq (ids Animals (run exOps exStore))
             (ids Animals exStore @ concat (map (added Animals) exOps))"
    using operations_keep_display_order [of Animals exOps exStore] h by blast
  show ?thesis
    using a f t s by blast
qed

end
